theory Spec2Isabelle
  imports Complex_Main
begin

chapter \<open>The embedding\<close>

section \<open>Configuration\<close>

text \<open>
  The training configuration is a Python dict \<^verbatim>\<open>config\<close>; the keys the agent reads are
  the fields of this record. Floating-point numbers are modelled as exact reals: every
  statement below is about the arithmetic expressions the source writes, not about rounding.
\<close>

record Config =
  GAMMA :: real
  GAE_LAMBDA :: real
  CLIP_EPS :: real
  VF_COEF :: real
  ENT_COEF :: real
  LR :: real
  ANNEAL_LR :: bool
  NUM_ENVS :: nat
  NUM_MINIBATCHES :: nat
  UPDATE_EPOCHS :: nat
  NUM_UPDATES :: nat
  NUM_STEPS :: nat
  NUM_DEVICES :: nat
  SEED :: int

text \<open>A configuration used for the concrete checks below.\<close>

definition cfg0 :: Config where
  "cfg0 = \<lparr>GAMMA = 99/100, GAE_LAMBDA = 95/100, CLIP_EPS = 2/10, VF_COEF = 1/2,
     ENT_COEF = 1/100, LR = 1/1000, ANNEAL_LR = True, NUM_ENVS = 2, NUM_MINIBATCHES = 2,
     UPDATE_EPOCHS = 2, NUM_UPDATES = 5, NUM_STEPS = 3, NUM_DEVICES = 1, SEED = 42\<rparr>"

section \<open>Learning-rate schedule (PPO\_RNN.py, \<^verbatim>\<open>__init__\<close>)\<close>

text \<open>
  \<^verbatim>\<open>frac = 1.0 - (count // (NUM_MINIBATCHES * UPDATE_EPOCHS)) / NUM_UPDATES\<close>;
  \<^verbatim>\<open>return LR * frac\<close>. The optimizer's step count is an integer; \<^verbatim>\<open>//\<close> is floor
  division, which is \<open>div\<close> on \<open>int\<close>.
\<close>

definition linear_schedule :: "Config \<Rightarrow> int \<Rightarrow> real" where
  "linear_schedule cfg count =
     (let frac = 1 - real_of_int (count div int (NUM_MINIBATCHES cfg * UPDATE_EPOCHS cfg))
                       / real (NUM_UPDATES cfg)
      in LR cfg * frac)"

text \<open>The learning rate handed to Adam: the schedule when \<^verbatim>\<open>ANNEAL_LR\<close>, else the constant.\<close>

definition learning_rate :: "Config \<Rightarrow> int \<Rightarrow> real" where
  "learning_rate cfg count = (if ANNEAL_LR cfg then linear_schedule cfg count else LR cfg)"

section \<open>Arrays and the transition record\<close>

text \<open>
  A one-dimensional array is a list; a two-dimensional array is a list of rows, the outer
  list being axis 0. Trailing axes (the feature axis of an observation, the hidden
  dimension of a recurrent state) are carried inside the element type. Arithmetic between
  arrays of equal shape is elementwise. Broadcasting between arrays of different shapes
  is not modelled: \<open>map2\<close> stops at the shorter argument, and the properties below state
  the shapes they are about.
\<close>

definition ew1 :: "('a \<Rightarrow> 'b) \<Rightarrow> 'a list list \<Rightarrow> 'b list list" where
  "ew1 f x = map (map f) x"

definition ew2 :: "('a \<Rightarrow> 'b \<Rightarrow> 'c) \<Rightarrow> 'a list list \<Rightarrow> 'b list list \<Rightarrow> 'c list list" where
  "ew2 f x y = map2 (map2 f) x y"

text \<open>The shape of a two-dimensional array: \<open>n\<close> rows of \<open>m\<close> elements each.\<close>

definition has_shape :: "nat \<Rightarrow> nat \<Rightarrow> 'a list list \<Rightarrow> bool" where
  "has_shape n m x = (length x = n \<and> list_all (\<lambda>row. length row = m) x)"

text \<open>
  \<^verbatim>\<open>Transition\<close> is the named tuple of \<^verbatim>\<open>project_name/utils.py\<close>, built in
  \<^verbatim>\<open>_run_episode_step\<close> in this field order and read by name in \<^verbatim>\<open>PPO_RNN.py\<close>. Its
  fields \<^verbatim>\<open>done\<close> and \<^verbatim>\<open>value\<close> are written \<open>done_flag\<close> and \<open>value_est\<close> here. The
  same tuple holds one step (leaves indexed by environment) and a whole rollout (leaves
  with a leading time axis), so the leaf types are parameters: \<open>'b\<close> for the boolean
  leaves, \<open>'a\<close> for actions, \<open>'r\<close> for the real-valued leaves, \<open>'o\<close> for observations and
  \<open>'i\<close> for the diagnostics.
\<close>

record ('b, 'a, 'r, 'o, 'i) Transition =
  global_done :: 'b
  done_flag :: 'b
  action :: 'a
  value_est :: 'r
  reward :: 'r
  log_prob :: 'r
  obs :: 'o
  info :: 'i

type_synonym ('a, 'o, 'i) step_transition =
  "(bool list, 'a list, real list, 'o list, 'i list) Transition"

type_synonym ('a, 'o, 'i) traj_batch =
  "(bool list list, 'a list list, real list list, 'o list list, 'i list list) Transition"

text \<open>The slice of a stacked rollout at time \<open>t\<close>, and the rollout as the sequence of its
  slices, which is how \<^verbatim>\<open>jax.lax.scan\<close> reads the leading axis of a pytree. All leaves
  of a pytree that is scanned have the same leading length; it is read off the reward
  leaf.\<close>

definition slice_at :: "nat \<Rightarrow> ('a, 'o, 'i) traj_batch \<Rightarrow> ('a, 'o, 'i) step_transition" where
  "slice_at t tb =
     \<lparr>global_done = global_done tb ! t, done_flag = done_flag tb ! t, action = action tb ! t,
      value_est = value_est tb ! t, reward = reward tb ! t, log_prob = log_prob tb ! t,
      obs = obs tb ! t, info = info tb ! t\<rparr>"

definition unstack :: "('a, 'o, 'i) traj_batch \<Rightarrow> ('a, 'o, 'i) step_transition list" where
  "unstack tb = map (\<lambda>t. slice_at t tb) [0..<length (reward tb)]"

text \<open>A rollout of \<open>T\<close> steps over \<open>E\<close> environments: every leaf has shape \<open>[T, E]\<close>.\<close>

definition traj_shape :: "nat \<Rightarrow> nat \<Rightarrow> ('a, 'o, 'i) traj_batch \<Rightarrow> bool" where
  "traj_shape T E tb =
     (has_shape T E (global_done tb) \<and> has_shape T E (done_flag tb) \<and> has_shape T E (action tb)
      \<and> has_shape T E (value_est tb) \<and> has_shape T E (reward tb) \<and> has_shape T E (log_prob tb)
      \<and> has_shape T E (obs tb) \<and> has_shape T E (info tb))"

text \<open>The leaves the advantage estimator reads, at one step, have one entry per environment.\<close>

definition step_shape :: "nat \<Rightarrow> ('a, 'o, 'i) step_transition \<Rightarrow> bool" where
  "step_shape E x = (length (global_done x) = E \<and> length (value_est x) = E \<and> length (reward x) = E)"

section \<open>\<^verbatim>\<open>jax.lax.scan\<close>\<close>

text \<open>
  \<^verbatim>\<open>scan(f, init, xs)\<close> threads a carry through \<open>xs\<close> from the first element to the last
  and stacks the per-step outputs. With \<^verbatim>\<open>reverse=True\<close> the carry runs from the last
  element to the first, and output \<open>k\<close> still belongs to input \<open>k\<close>.
\<close>

fun scan :: "('c \<Rightarrow> 'x \<Rightarrow> 'c \<times> 'y) \<Rightarrow> 'c \<Rightarrow> 'x list \<Rightarrow> 'c \<times> 'y list" where
  "scan f c [] = (c, [])"
| "scan f c (x # xs) =
     (let (c1, y) = f c x; (c2, ys) = scan f c1 xs in (c2, y # ys))"

fun scan_reverse :: "('c \<Rightarrow> 'x \<Rightarrow> 'c \<times> 'y) \<Rightarrow> 'c \<Rightarrow> 'x list \<Rightarrow> 'c \<times> 'y list" where
  "scan_reverse f c [] = (c, [])"
| "scan_reverse f c (x # xs) =
     (let (c1, ys) = scan_reverse f c xs; (c2, y) = f c1 x in (c2, y # ys))"

section \<open>Generalized advantage estimation (PPO\_RNN.py, \<^verbatim>\<open>_calculate_gae\<close>)\<close>

text \<open>\<^verbatim>\<open>1 - done\<close> on a boolean array: \<open>0\<close> where the flag is set, \<open>1\<close> elsewhere.\<close>

definition one_minus :: "bool \<Rightarrow> real" where
  "one_minus d = 1 - of_bool d"

text \<open>
  \<^verbatim>\<open>_get_advantages\<close>, the body of the scan. The flag it reads is
  \<^verbatim>\<open>transition.global_done\<close>.
  \<^verbatim>\<open>delta = reward + GAMMA * next_value * (1 - done) - value\<close>;
  \<^verbatim>\<open>gae = delta + GAMMA * GAE_LAMBDA * (1 - done) * gae\<close>;
  \<^verbatim>\<open>return (gae, value), gae\<close>.
\<close>

definition get_advantages ::
  "Config \<Rightarrow> real list \<times> real list \<Rightarrow> ('a, 'o, 'i) step_transition
     \<Rightarrow> (real list \<times> real list) \<times> real list" where
  "get_advantages cfg gae_and_next_value transition =
     (let (gae, next_value) = gae_and_next_value;
          (dn, v, r) = (global_done transition, value_est transition, reward transition);
          delta = map2 (-)
                    (map2 (+) r (map2 (*) (map ((*) (GAMMA cfg)) next_value) (map one_minus dn)))
                    v;
          gae = map2 (+) delta
                    (map2 (*) (map (\<lambda>d. GAMMA cfg * GAE_LAMBDA cfg * one_minus d) dn) gae)
      in ((gae, v), gae))"

text \<open>
  \<^verbatim>\<open>_calculate_gae\<close>: a reverse scan from \<^verbatim>\<open>(zeros_like(last_val), last_val)\<close>; returns
  \<^verbatim>\<open>advantages, advantages + traj_batch.value\<close>.
\<close>

definition zeros_like :: "real list \<Rightarrow> real list" where
  "zeros_like x = map (\<lambda>_. 0) x"

definition calculate_gae ::
  "Config \<Rightarrow> ('a, 'o, 'i) traj_batch \<Rightarrow> real list \<Rightarrow> real list list \<times> real list list" where
  "calculate_gae cfg traj_batch last_val =
     (let (_, advantages) =
            scan_reverse (get_advantages cfg) (zeros_like last_val, last_val) (unstack traj_batch)
      in (advantages, ew2 (+) advantages (value_est traj_batch)))"


text \<open>
  A rollout of four steps in one environment: rewards \<open>1\<close>, the episode ends at the last
  step.
\<close>

definition traj0 :: "(nat, real list, unit) traj_batch" where
  "traj0 = \<lparr>global_done = [[False], [False], [False], [True]],
            done_flag = [[False], [False], [False], [True]],
            action = [[0], [1], [0], [1]],
            value_est = [[1/2], [1/4], [1/2], [1/4]],
            reward = [[1], [1], [1], [1]],
            log_prob = [[0], [0], [0], [0]],
            obs = [[[0]], [[0]], [[0]], [[0]]],
            info = [[()], [()], [()], [()]]\<rparr>"

section \<open>Array operations of the optimizer\<close>

text \<open>
  What JAX raises at trace time is a value of \<open>error\<close>: a \<^verbatim>\<open>reshape\<close> whose sizes do not
  divide, an axis that does not exist, and a \<^verbatim>\<open>scan\<close> whose body returns a carry of
  another shape than it was given.
\<close>

datatype error = ReshapeError | AxisError | ScanCarryMismatch

definition bind_err :: "error + 'a \<Rightarrow> ('a \<Rightarrow> error + 'b) \<Rightarrow> error + 'b" where
  "bind_err m f = (case m of Inl e \<Rightarrow> Inl e | Inr x \<Rightarrow> f x)"

fun scan_err :: "('c \<Rightarrow> 'x \<Rightarrow> error + 'c \<times> 'y) \<Rightarrow> 'c \<Rightarrow> 'x list \<Rightarrow> error + 'c \<times> 'y list" where
  "scan_err f c [] = Inr (c, [])"
| "scan_err f c (x # xs) =
     bind_err (f c x) (\<lambda>(c1, y).
     bind_err (scan_err f c1 xs) (\<lambda>(c2, ys). Inr (c2, y # ys)))"

text \<open>The length of axis 1 of a two-dimensional array (of its first row).\<close>

definition ncols :: "'a list list \<Rightarrow> nat" where
  "ncols x = (case x of [] \<Rightarrow> 0 | row # _ \<Rightarrow> length row)"

text \<open>
  \<^verbatim>\<open>jnp.swapaxes(x, 0, 1)\<close> on a rectangular array: element \<open>[j][i]\<close> of the result is
  element \<open>[i][j]\<close> of \<open>x\<close>. (A list of rows has no shape \<open>[0, n]\<close>: an array without
  rows is the empty list.)
\<close>

definition swapaxes01 :: "'a list list \<Rightarrow> 'a list list" where
  "swapaxes01 x = map (\<lambda>j. map (\<lambda>row. row ! j) x) [0..<ncols x]"

text \<open>
  \<^verbatim>\<open>jnp.take(x, indices, axis=1)\<close>: every row \<open>x[i]\<close> becomes
  \<open>[x[i][k] for k in indices]\<close>. An index past the end of the axis does not raise in JAX;
  the value it yields (NaN in the default mode) is the parameter \<open>fill\<close>.
\<close>

definition take_axis1 :: "'a \<Rightarrow> nat list \<Rightarrow> 'a list list \<Rightarrow> 'a list list" where
  "take_axis1 fill indices x =
     map (\<lambda>row. map (\<lambda>k. if k < length row then row ! k else fill) indices) x"

text \<open>
  \<^verbatim>\<open>jnp.swapaxes(jnp.reshape(x, [x.shape[0], NUM_MINIBATCHES, -1] + list(x.shape[2:])), 1, 0)\<close>:
  axis 1 of \<open>x\<close> is cut into \<open>n\<close> consecutive shards, and shard \<open>m\<close> of every row makes
  minibatch \<open>m\<close>. The reshape needs the length of axis 1 to be a multiple of \<open>n\<close>; the
  caller checks it.
\<close>

definition to_minibatches :: "nat \<Rightarrow> 'a list list \<Rightarrow> 'a list list list" where
  "to_minibatches n x =
     (let k = ncols x div n
      in map (\<lambda>m. map (\<lambda>row. take k (drop (m * k) row)) x) [0..<n])"

text \<open>
  \<^verbatim>\<open>jnp.reshape(init_hstate, (1, NUM_ENVS, -1))\<close>: the elements in row-major order, cut
  into \<open>NUM_ENVS\<close> rows, under one new leading axis.
\<close>

definition reshape_hstate :: "nat \<Rightarrow> real list list \<Rightarrow> error + real list list list" where
  "reshape_hstate n h =
     (let flat = concat h
      in if n = 0 \<or> length flat mod n \<noteq> 0 then Inl ReshapeError
         else Inr [map (\<lambda>i. take (length flat div n) (drop (i * (length flat div n)) flat)) [0..<n]])"

text \<open>
  \<^verbatim>\<open>x.squeeze()\<close> removes every axis of length one. On an array with three axes whose
  first has length one, the result has two axes unless another axis has length one too;
  the source then uses it where two axes are required (as the carry of a scan that was
  given two axes, or under \<^verbatim>\<open>take(..., axis=1)\<close>), which raises.
\<close>

definition squeeze_hstate :: "real list list list \<Rightarrow> error + real list list" where
  "squeeze_hstate x =
     (case x of
        [h] \<Rightarrow> if length h = 1 \<or> ncols h = 1 then Inl ScanCarryMismatch else Inr h
      | _ \<Rightarrow> Inl ScanCarryMismatch)"

definition squeeze2 :: "'a list list \<Rightarrow> error + 'a list list" where
  "squeeze2 x = (if length x = 1 \<or> ncols x = 1 then Inl AxisError else Inr x)"

text \<open>
  \<^verbatim>\<open>last_val.squeeze()\<close> on the critic's output for the one bootstrap step, of shape
  \<open>[1, NUM_ENVS]\<close>: the row itself, unless \<open>NUM_ENVS = 1\<close>, where the result is a scalar
  and the carry of the advantage scan changes shape in the first step.
\<close>

definition squeeze_last_val :: "real list list \<Rightarrow> error + real list" where
  "squeeze_last_val v =
     (case v of
        [row] \<Rightarrow> if length row = 1 then Inl ScanCarryMismatch else Inr row
      | _ \<Rightarrow> Inl AxisError)"

text \<open>\<^verbatim>\<open>jax.tree_map\<close> over a transition: the same array function at every leaf.\<close>

definition map_leaves ::
  "('b \<Rightarrow> 'b2) \<Rightarrow> ('a \<Rightarrow> 'a2) \<Rightarrow> ('r \<Rightarrow> 'r2) \<Rightarrow> ('o \<Rightarrow> 'o2) \<Rightarrow> ('i \<Rightarrow> 'i2)
     \<Rightarrow> ('b, 'a, 'r, 'o, 'i) Transition \<Rightarrow> ('b2, 'a2, 'r2, 'o2, 'i2) Transition" where
  "map_leaves fb fa fr fo fi tr =
     \<lparr>global_done = fb (global_done tr), done_flag = fb (done_flag tr), action = fa (action tr),
      value_est = fr (value_est tr), reward = fr (reward tr), log_prob = fr (log_prob tr),
      obs = fo (obs tr), info = fi (info tr)\<rparr>"

section \<open>The PPO loss (PPO\_RNN.py, \<^verbatim>\<open>_loss_fn\<close>)\<close>

text \<open>
  The policy the network returns is a \<^verbatim>\<open>distrax.Categorical\<close>; the loss uses its
  \<^verbatim>\<open>log_prob(action)\<close> and its \<^verbatim>\<open>entropy()\<close>.
\<close>

record 'a Distribution =
  pi_log_prob :: "'a list list \<Rightarrow> real list list"
  pi_entropy :: "real list list"

text \<open>
  What the agent takes from outside this file: the recurrent network of
  \<^verbatim>\<open>agents/PPO_RNN/network.py\<close> (not among the sources), the \<^verbatim>\<open>TrainState\<close> of flax with
  its \<^verbatim>\<open>params\<close> and \<^verbatim>\<open>apply_gradients\<close>, JAX's differentiation, its random-key
  primitives, and the values \<^verbatim>\<open>jnp.take\<close> yields past the end of an axis.
\<close>

type_synonym loss_out = "real option \<times> (real option \<times> real option \<times> real option)"

record ('ts, 'p, 'g, 'k, 'a, 'o, 'i) Deps =
  network_apply :: "'p \<Rightarrow> real list list \<Rightarrow> 'o list list \<times> bool list list
                      \<Rightarrow> real list list \<times> 'a Distribution \<times> real list list"
  params :: "'ts \<Rightarrow> 'p"
  apply_gradients :: "'ts \<Rightarrow> 'g \<Rightarrow> 'ts"
  grad :: "('p \<Rightarrow> error + loss_out) \<Rightarrow> 'p \<Rightarrow> 'g"
  split :: "'k \<Rightarrow> 'k \<times> 'k"
  permutation :: "'k \<Rightarrow> nat \<Rightarrow> nat list"
  fill_bool :: bool
  fill_action :: 'a
  fill_real :: real
  fill_obs :: 'o
  fill_info :: 'i
  fill_hidden :: "real list"

text \<open>\<^verbatim>\<open>jnp.clip(x, lo, hi)\<close> is \<^verbatim>\<open>minimum(hi, maximum(x, lo))\<close>.\<close>

definition clip :: "real \<Rightarrow> real \<Rightarrow> real \<Rightarrow> real" where
  "clip lo hi x = min hi (max x lo)"

text \<open>\<^verbatim>\<open>x.mean()\<close> and \<^verbatim>\<open>x.std()\<close> over all elements of an array.\<close>

definition mean2 :: "real list list \<Rightarrow> real" where
  "mean2 x = sum_list (concat x) / real (length (concat x))"

definition std2 :: "real list list \<Rightarrow> real" where
  "std2 x = sqrt (mean2 (ew1 (\<lambda>v. (v - mean2 x)\<^sup>2) x))"

text \<open>
  \<^verbatim>\<open>x.mean(where=w)\<close>: the mean of the elements of \<open>x\<close> at the positions where \<open>w\<close> is
  not zero. With no such position JAX divides zero by zero and returns NaN, which is
  \<open>None\<close> here.
\<close>

definition selected :: "real list list \<Rightarrow> int list list \<Rightarrow> real list" where
  "selected x w = concat (concat (ew2 (\<lambda>v m. if m \<noteq> 0 then [v] else []) x w))"

definition masked_mean :: "real list list \<Rightarrow> int list list \<Rightarrow> real option" where
  "masked_mean x w =
     (let sel = selected x w
      in if sel = [] then None else Some (sum_list sel / real (length sel)))"

text \<open>
  \<^verbatim>\<open>_loss_fn\<close>. The mask of the three means is \<^verbatim>\<open>1 - traj_batch.done\<close>, the per-agent
  flag. A NaN in one summand makes the total NaN.
\<close>

definition loss_fn ::
  "('ts, 'p, 'g, 'k, 'a, 'o, 'i) Deps \<Rightarrow> Config \<Rightarrow> 'p \<Rightarrow> real list list list
     \<Rightarrow> ('a, 'o, 'i) traj_batch \<Rightarrow> real list list \<Rightarrow> real list list \<Rightarrow> error + loss_out" where
  "loss_fn D cfg ps init_hstate traj_batch gae targets =
     (case init_hstate of
        [h0] \<Rightarrow>
          (let (_, pi, v) = network_apply D ps h0 (obs traj_batch, done_flag traj_batch);
               log_prob_new = pi_log_prob pi (action traj_batch);
               value_pred_clipped =
                 ew2 (+) (value_est traj_batch)
                   (ew1 (clip (- CLIP_EPS cfg) (CLIP_EPS cfg)) (ew2 (-) v (value_est traj_batch)));
               value_losses = ew1 (\<lambda>d. d\<^sup>2) (ew2 (-) v targets);
               value_losses_clipped = ew1 (\<lambda>d. d\<^sup>2) (ew2 (-) value_pred_clipped targets);
               not_done = ew1 (\<lambda>d. 1 - of_bool d) (done_flag traj_batch);
               value_loss = map_option ((*) (1/2))
                              (masked_mean (ew2 max value_losses value_losses_clipped) not_done);
               ratio = ew1 exp (ew2 (-) log_prob_new (log_prob traj_batch));
               gae_n = ew1 (\<lambda>g. (g - mean2 gae) / (std2 gae + 1 / 10 ^ 8)) gae;
               loss_actor1 = ew2 (*) ratio gae_n;
               loss_actor2 = ew2 (*) (ew1 (clip (1 - CLIP_EPS cfg) (1 + CLIP_EPS cfg)) ratio) gae_n;
               loss_actor = masked_mean (ew1 uminus (ew2 min loss_actor1 loss_actor2)) not_done;
               entropy = masked_mean (pi_entropy pi) not_done;
               total_loss =
                 (case (loss_actor, value_loss, entropy) of
                    (Some a, Some vl, Some en) \<Rightarrow> Some (a + VF_COEF cfg * vl - ENT_COEF cfg * en)
                  | _ \<Rightarrow> None)
           in Inr (total_loss, (value_loss, loss_actor, entropy)))
      | _ \<Rightarrow> Inl AxisError)"






section \<open>The optimizer (PPO\_RNN.py, \<^verbatim>\<open>update\<close>)\<close>

text \<open>
  \<^verbatim>\<open>_update_minbatch\<close>: the loss and its gradient at the current parameters, then one
  optimizer step. \<^verbatim>\<open>batch_info\<close> is \<open>(init_hstate, traj_batch, advantages, targets)\<close>.
\<close>

type_synonym ('a, 'o, 'i) batch_info =
  "real list list list \<times> ('a, 'o, 'i) traj_batch \<times> real list list \<times> real list list"

definition update_minbatch ::
  "('ts, 'p, 'g, 'k, 'a, 'o, 'i) Deps \<Rightarrow> Config \<Rightarrow> 'ts \<Rightarrow> ('a, 'o, 'i) batch_info
     \<Rightarrow> error + 'ts \<times> real option" where
  "update_minbatch D cfg train_state batch_info =
     (let (init_hstate, traj_batch, advantages, targets) = batch_info;
          loss = (\<lambda>ps. loss_fn D cfg ps init_hstate traj_batch advantages targets)
      in bind_err (loss (params D train_state)) (\<lambda>(total_loss, aux).
           let grads = grad D loss (params D train_state);
               train_state = apply_gradients D train_state grads
           in Inr (train_state, total_loss)))"

text \<open>
  The batch of one epoch, after \<^verbatim>\<open>swapaxes(x, 0, 1)\<close> on the trajectory, the advantages
  and the targets, then \<^verbatim>\<open>jnp.take(x, permutation, axis=1)\<close> on every leaf of
  \<open>(init_hstate, traj_batch, advantages, targets)\<close>.
\<close>

definition shuffle_batch ::
  "('ts, 'p, 'g, 'k, 'a, 'o, 'i) Deps \<Rightarrow> nat list \<Rightarrow> ('a, 'o, 'i) batch_info
     \<Rightarrow> ('a, 'o, 'i) batch_info" where
  "shuffle_batch D perm batch =
     (let (init_hstate, traj_batch, advantages, targets) = batch
      in (take_axis1 (fill_hidden D) perm init_hstate,
          map_leaves (take_axis1 (fill_bool D) perm) (take_axis1 (fill_action D) perm)
            (take_axis1 (fill_real D) perm) (take_axis1 (fill_obs D) perm)
            (take_axis1 (fill_info D) perm) traj_batch,
          take_axis1 (fill_real D) perm advantages,
          take_axis1 (fill_real D) perm targets))"

text \<open>
  The shuffle as section 4.5 of the specification words it, on a leaf whose rows are the
  environments: the rows are permuted and every row keeps its time axis. It is used only
  to compare the source against that wording.
\<close>

definition take_axis0 :: "nat list \<Rightarrow> 'a list list \<Rightarrow> 'a list list" where
  "take_axis0 indices x = map (\<lambda>k. if k < length x then x ! k else []) indices"

text \<open>
  The minibatches of a shuffled batch: every leaf is cut along axis 1, and the scan over
  the minibatches takes shard \<open>m\<close> of every leaf as minibatch \<open>m\<close>.
\<close>

definition minibatches_of ::
  "nat \<Rightarrow> ('a, 'o, 'i) batch_info \<Rightarrow> ('a, 'o, 'i) batch_info list" where
  "minibatches_of n batch =
     (let (init_hstate, traj_batch, advantages, targets) = batch
      in map (\<lambda>m. (to_minibatches n init_hstate ! m,
                    map_leaves (\<lambda>x. to_minibatches n x ! m) (\<lambda>x. to_minibatches n x ! m)
                      (\<lambda>x. to_minibatches n x ! m) (\<lambda>x. to_minibatches n x ! m)
                      (\<lambda>x. to_minibatches n x ! m) traj_batch,
                    to_minibatches n advantages ! m,
                    to_minibatches n targets ! m)) [0..<n])"

text \<open>
  \<^verbatim>\<open>_update_epoch\<close>. \<^verbatim>\<open>update_state\<close> is
  \<open>(train_state, init_hstate, traj_batch, advantages, targets, key)\<close>. The hidden state it
  returns is \<^verbatim>\<open>init_hstate.squeeze()\<close> of the reshaped, unshuffled hidden state, and as the
  carry of the scan over epochs it must have the shape it came in with.
\<close>

type_synonym ('ts, 'k, 'a, 'o, 'i) update_state =
  "'ts \<times> real list list \<times> ('a, 'o, 'i) traj_batch \<times> real list list \<times> real list list \<times> 'k"

definition update_epoch ::
  "('ts, 'p, 'g, 'k, 'a, 'o, 'i) Deps \<Rightarrow> Config \<Rightarrow> ('ts, 'k, 'a, 'o, 'i) update_state
     \<Rightarrow> unit \<Rightarrow> error + ('ts, 'k, 'a, 'o, 'i) update_state \<times> real option list" where
  "update_epoch D cfg update_state unused =
     (let (train_state, init_hstate0, traj_batch0, advantages, targets, key0) = update_state;
          (key, key1) = split D key0
      in bind_err (reshape_hstate (NUM_ENVS cfg) init_hstate0) (\<lambda>init_hstate.
         let perm = permutation D key1 (NUM_ENVS cfg);
             traj_batch = map_leaves swapaxes01 swapaxes01 swapaxes01 swapaxes01 swapaxes01
                            traj_batch0
         in bind_err (squeeze2 (swapaxes01 advantages)) (\<lambda>adv_sw.
            bind_err (squeeze2 (swapaxes01 targets)) (\<lambda>tgt_sw.
            let batch = (init_hstate, traj_batch, adv_sw, tgt_sw);
                shuffled_batch = shuffle_batch D perm batch
            in if NUM_MINIBATCHES cfg = 0 \<or> length perm mod NUM_MINIBATCHES cfg \<noteq> 0
               then Inl ReshapeError
               else
                 let minibatches = minibatches_of (NUM_MINIBATCHES cfg) shuffled_batch
                 in bind_err (scan_err (update_minbatch D cfg) train_state minibatches)
                      (\<lambda>(train_state, total_loss).
                    let traj_batch = map_leaves swapaxes01 swapaxes01 swapaxes01 swapaxes01
                                       swapaxes01 traj_batch
                    in bind_err (squeeze_hstate init_hstate) (\<lambda>hstate.
                       if map length hstate \<noteq> map length init_hstate0
                       then Inl ScanCarryMismatch
                       else Inr ((train_state, hstate, traj_batch, advantages, targets, key),
                                 total_loss)))))))"

text \<open>
  \<^verbatim>\<open>update\<close>. \<^verbatim>\<open>runner_state\<close> is
  \<open>(train_state, env_state, last_obs, last_done, hstate, key)\<close>; the bootstrap value is
  the critic's output on \<^verbatim>\<open>(last_obs[newaxis], last_done[newaxis])\<close>.
\<close>

type_synonym ('ts, 'es, 'k, 'o) agent_runner_state =
  "'ts \<times> 'es \<times> 'o list \<times> bool list \<times> real list list \<times> 'k"

definition update ::
  "('ts, 'p, 'g, 'k, 'a, 'o, 'i) Deps \<Rightarrow> Config \<Rightarrow> ('ts, 'es, 'k, 'o) agent_runner_state
     \<Rightarrow> ('a, 'o, 'i) traj_batch \<Rightarrow> error + ('ts, 'es, 'k, 'o) agent_runner_state" where
  "update D cfg runner_state traj_batch =
     (let (train_state, env_state, last_obs, last_done, hstate, key) = runner_state;
          ac_in = ([last_obs], [last_done]);
          (_, _, last_val0) = network_apply D (params D train_state) hstate ac_in
      in bind_err (squeeze_last_val last_val0) (\<lambda>last_val.
         let (advantages, targets) = calculate_gae cfg traj_batch last_val;
             update_state = (train_state, hstate, traj_batch, advantages, targets, key)
         in bind_err (scan_err (update_epoch D cfg) update_state
                        (replicate (UPDATE_EPOCHS cfg) ()))
              (\<lambda>(update_state, loss_info).
            let (train_state, hstate, traj_batch, advantages, targets, key) = update_state;
                runner_state = (train_state, env_state, last_obs, last_done, hstate, key)
            in Inr runner_state)))"

section \<open>Concrete collaborators and inputs\<close>

text \<open>
  A small network and optimizer to run the definitions on: the parameter is one real
  number \<open>p\<close>, the critic's value of an observation is \<open>p\<close> times the sum of its features,
  the log-probability of action \<open>a\<close> is that value times \<open>a\<close>, and the entropy equals the
  value. The gradient is the constant \<open>1\<close>, the optimizer subtracts it, a key is a number,
  and the permutation drawn is always the reversal.
\<close>

definition deps0 :: "(real, real, real, nat, nat, real list, unit) Deps" where
  "deps0 =
     \<lparr>network_apply = (\<lambda>p h (ob, dn).
        (h,
         \<lparr>pi_log_prob = (\<lambda>act. ew2 (\<lambda>x a. p * sum_list x * real a) ob act),
          pi_entropy = ew1 (\<lambda>x. p * sum_list x) ob\<rparr>,
         ew1 (\<lambda>x. p * sum_list x) ob)),
      params = (\<lambda>ts. ts),
      apply_gradients = (\<lambda>ts g. ts - g),
      grad = (\<lambda>loss p. 1),
      split = (\<lambda>k. (2 * k, 2 * k + 1)),
      permutation = (\<lambda>k n. rev [0..<n]),
      fill_bool = True, fill_action = 0, fill_real = 0, fill_obs = [], fill_info = (),
      fill_hidden = []\<rparr>"


text \<open>A rollout of three steps in two environments; leaf entry \<open>[t][e]\<close> is step \<open>t\<close> of
  environment \<open>e\<close>.\<close>

definition traj32 :: "(nat, real list, unit) traj_batch" where
  "traj32 =
     \<lparr>global_done = [[False, False], [False, False], [False, False]],
      done_flag = [[False, False], [False, False], [False, False]],
      action = [[0, 1], [2, 3], [4, 5]],
      value_est = [[10, 11], [20, 21], [30, 31]],
      reward = [[1, 1], [1, 1], [1, 1]],
      log_prob = [[0, 0], [0, 0], [0, 0]],
      obs = [[[0], [0]], [[0], [0]], [[0], [0]]],
      info = [[(), ()], [(), ()], [(), ()]]\<rparr>"

text \<open>The configuration with one minibatch and two epochs.\<close>

definition cfg2 :: Config where
  "cfg2 = cfg0\<lparr>NUM_MINIBATCHES := 1, UPDATE_EPOCHS := 2\<rparr>"

text \<open>
  The batch \<^verbatim>\<open>_update_epoch\<close> builds from \<open>traj32\<close> and a hidden state of two
  environments, with the values standing in for advantages and targets.
\<close>

definition epoch_batch32 :: "(nat, real list, unit) batch_info" where
  "epoch_batch32 =
     ([[[7, 8], [9, 10]]],
      map_leaves swapaxes01 swapaxes01 swapaxes01 swapaxes01 swapaxes01 traj32,
      swapaxes01 (value_est traj32), swapaxes01 (value_est traj32))"

section \<open>The actor-critic network of \<^verbatim>\<open>agents/PPO/network.py\<close>\<close>

text \<open>
  \<^verbatim>\<open>nn.Dense(features)\<close> maps the last axis of its input: \<open>y = x @ kernel + bias\<close>. The
  parameters of a layer are its kernel, one row per input feature, and its bias, one
  entry per output feature; flax names the six layers of the module \<open>Dense_0\<close> to
  \<open>Dense_5\<close> in the order of their calls. The last layer of the critic is \<^verbatim>\<open>nn.Dense(1)\<close>
  followed by \<^verbatim>\<open>jnp.squeeze(critic, axis=-1)\<close>: its one output feature, as a number.
\<close>

record Dense_params =
  kernel :: "real list list"
  bias :: "real list"

definition Dense :: "Dense_params \<Rightarrow> real list \<Rightarrow> real list" where
  "Dense p x =
     map (\<lambda>j. sum_list (map2 (\<lambda>xi row. xi * row ! j) x (kernel p)) + bias p ! j)
       [0..<length (bias p)]"

record Dense1_params =
  kernel1 :: "real list"
  bias1 :: real

definition Dense1 :: "Dense1_params \<Rightarrow> real list \<Rightarrow> real" where
  "Dense1 p x = sum_list (map2 (*) x (kernel1 p)) + bias1 p"

record ActorCritic_params =
  Dense_0 :: Dense_params
  Dense_1 :: Dense_params
  Dense_2 :: Dense_params
  Dense_3 :: Dense_params
  Dense_4 :: Dense_params
  Dense_5 :: Dense1_params

definition relu :: "real \<Rightarrow> real" where
  "relu x = max x 0"

text \<open>\<^verbatim>\<open>distrax.Categorical(logits=actor_mean)\<close>, kept as its logits.\<close>

datatype categorical = Categorical (logits: "real list list list")

text \<open>
  \<^verbatim>\<open>ActorCriticRNN.__call__(hidden, x)\<close> with \<^verbatim>\<open>x = (obs, dones)\<close>. The observation has
  axes \<open>[time, environment, feature]\<close>. The module's \<^verbatim>\<open>activation\<close> field selects
  \<^verbatim>\<open>nn.relu\<close> for \<^verbatim>\<open>"relu"\<close> and \<^verbatim>\<open>nn.tanh\<close> for every other string. The method returns
  \<^verbatim>\<open>hidden, pi, jnp.squeeze(critic, axis=-1)\<close>.
\<close>

definition ActorCriticRNN_call ::
  "string \<Rightarrow> ActorCritic_params \<Rightarrow> real list list \<Rightarrow> real list list list \<times> bool list list
     \<Rightarrow> real list list \<times> categorical \<times> real list list" where
  "ActorCriticRNN_call activation_name ps hidden x =
     (let activation = (if activation_name = ''relu'' then relu else tanh);
          (obs_in, dones) = x;
          embedding = ew1 (Dense (Dense_0 ps)) obs_in;
          embedding = ew1 (map activation) embedding;
          embedding = ew1 (Dense (Dense_1 ps)) embedding;
          embedding = ew1 (map activation) embedding;
          actor_mean = ew1 (Dense (Dense_2 ps)) embedding;
          pi = Categorical actor_mean;
          critic = ew1 (Dense (Dense_3 ps)) obs_in;
          critic = ew1 (map activation) critic;
          critic = ew1 (Dense (Dense_4 ps)) critic;
          critic = ew1 (map activation) critic;
          critic = ew1 (Dense1 (Dense_5 ps)) critic
      in (hidden, pi, critic))"

text \<open>
  The reset of section 4.1 of the specification, for one step: the hidden state of every
  environment whose \<^verbatim>\<open>agent_done\<close> flag is set becomes zero. It is used only to compare
  the source against that wording.
\<close>

definition reset_hidden :: "bool list \<Rightarrow> real list list \<Rightarrow> real list list" where
  "reset_hidden dones hidden = map2 (\<lambda>d h. if d then map (\<lambda>_. 0) h else h) dones hidden"

text \<open>Parameters for one observation feature, one hidden unit and two actions.\<close>

definition params0 :: ActorCritic_params where
  "params0 =
     \<lparr>Dense_0 = \<lparr>kernel = [[1]], bias = [0]\<rparr>,
      Dense_1 = \<lparr>kernel = [[1]], bias = [0]\<rparr>,
      Dense_2 = \<lparr>kernel = [[1, 2]], bias = [0, 0]\<rparr>,
      Dense_3 = \<lparr>kernel = [[1]], bias = [0]\<rparr>,
      Dense_4 = \<lparr>kernel = [[1]], bias = [0]\<rparr>,
      Dense_5 = \<lparr>kernel1 = [3], bias1 = 1\<rparr>\<rparr>"

section \<open>The reward dispatch of the environments (\<^verbatim>\<open>get_reward_function\<close>)\<close>




text \<open>
  What the dispatch reads of the environment object: the number of agents and
  \<^verbatim>\<open>self.reward_type\<close>, indexed by agent; an entry is a selector string or \<^verbatim>\<open>None\<close>.
  \<^verbatim>\<open>AYS_Environment_MultiAgent.__init__\<close> sets \<^verbatim>\<open>self.reward_type = [reward_type] * num_agents\<close>;
  \<^verbatim>\<open>AYS_JAX.py\<close> stores the constructor's argument as it is.
\<close>

record Env =
  num_agents :: nat
  reward_type :: "string option list"














section \<open>The training loop (environment\_loop.py, \<^verbatim>\<open>run_train\<close>)\<close>

text \<open>
  What the loop takes from outside this file, with the vectorisation over devices and
  environments (\<^verbatim>\<open>pmap\<close> of \<^verbatim>\<open>vmap\<close>) inside the environment's functions:
  the random-key primitives; the actor (\<^verbatim>\<open>Agent\<close> or \<^verbatim>\<open>MultiAgent\<close>) with
  \<^verbatim>\<open>initialise\<close>, \<^verbatim>\<open>act\<close> and \<^verbatim>\<open>update\<close>; the environment's \<^verbatim>\<open>reset\<close> and \<^verbatim>\<open>step\<close>;
  \<^verbatim>\<open>batchify\<close> and \<^verbatim>\<open>unbatchify\<close> of \<^verbatim>\<open>utils.py\<close>, at the types they are used at; the
  reshapes of the diagnostics. The \<^verbatim>\<open>done\<close> dictionary a step returns is a pair: the
  per-agent entries, and the entry \<^verbatim>\<open>__all__\<close> with axes \<open>[device, environment]\<close>.
  \<^verbatim>\<open>act\<close> returns two more values, which the training loop discards.
\<close>

type_synonym 'inf loop_transition =
  "(bool list list, nat list list, real list list, real list list list, 'inf) Transition"

type_synonym 'inf loop_trajectory =
  "(bool list list list, nat list list list, real list list list, real list list list list,
    'inf list) Transition"

type_synonym ('ts, 'es, 'ob, 'hs, 'gs, 'k) runner_state =
  "'ts \<times> 'es \<times> 'ob \<times> bool list list \<times> 'hs \<times> 'gs \<times> 'k"

type_synonym ('ts, 'es, 'ob, 'hs, 'k) actor_update_state =
  "'ts \<times> 'es \<times> 'ob \<times> bool list list \<times> 'hs \<times> 'k"

record ('ts, 'es, 'ob, 'hs, 'gs, 'k, 'ks, 'ea, 'rw, 'dd, 'inf, 'm) Loop =
  PRNGKey :: "int \<Rightarrow> 'k"
  jr_split :: "'k \<Rightarrow> 'k \<times> 'k"
  split_keys :: "'k \<Rightarrow> nat \<Rightarrow> nat \<Rightarrow> 'ks"
  actor_initialise :: "'k \<Rightarrow> 'ts \<times> 'hs"
  actor_act :: "'ts \<Rightarrow> 'hs \<Rightarrow> real list list list \<Rightarrow> bool list list \<Rightarrow> 'k
                  \<Rightarrow> 'hs \<times> nat list list \<times> real list list \<times> real list list \<times> 'k"
  actor_update :: "('ts, 'es, 'ob, 'hs, 'k) actor_update_state \<Rightarrow> 'inf loop_trajectory
                  \<Rightarrow> ('ts, 'es, 'ob, 'hs, 'k) actor_update_state"
  env_reset :: "'ks \<Rightarrow> 'ob \<times> 'es \<times> 'gs"
  env_step :: "'ks \<Rightarrow> 'es \<Rightarrow> 'ea \<Rightarrow> 'gs
                  \<Rightarrow> 'ob \<times> 'es \<times> 'rw \<times> ('dd \<times> bool list list) \<times> 'inf \<times> 'gs"
  batchify_obs :: "'ob \<Rightarrow> real list list list"
  batchify_done :: "'dd \<Rightarrow> bool list list"
  batchify_reward :: "'rw \<Rightarrow> real list list"
  unbatchify :: "nat list list \<Rightarrow> 'ea"
  info_agent_major :: "'inf \<Rightarrow> 'inf"
  metric_of :: "'inf list \<Rightarrow> nat \<Rightarrow> 'm"

text \<open>The stacked output of a scan over steps: every leaf gets a leading time axis.\<close>

definition stack :: "'inf loop_transition list \<Rightarrow> 'inf loop_trajectory" where
  "stack trs =
     \<lparr>global_done = map global_done trs, done_flag = map done_flag trs, action = map action trs,
      value_est = map value_est trs, reward = map reward trs, log_prob = map log_prob trs,
      obs = map obs trs, info = map info trs\<rparr>"

text \<open>
  \<^verbatim>\<open>_run_episode_step\<close>. The first field of the transition is
  \<^verbatim>\<open>jnp.full((num_agents, NUM_ENVS), done["__all__"].reshape((NUM_ENVS)))\<close>: the episode's
  flag of every environment, repeated for every agent. The second is the per-agent
  \<^verbatim>\<open>done_batch\<close>.
\<close>

definition run_episode_step ::
  "('ts, 'es, 'ob, 'hs, 'gs, 'k, 'ks, 'ea, 'rw, 'dd, 'inf, 'm) Loop \<Rightarrow> Config \<Rightarrow> Env
     \<Rightarrow> ('ts, 'es, 'ob, 'hs, 'gs, 'k) runner_state \<Rightarrow> unit
     \<Rightarrow> ('ts, 'es, 'ob, 'hs, 'gs, 'k) runner_state \<times> 'inf loop_transition" where
  "run_episode_step L cfg env runner_state unused =
     (let (train_state, env_state0, last_obs, last_done, hstate0, env_graph_state0, key0) =
            runner_state;
          obs_batch = batchify_obs L last_obs;
          (hstate, action_n, log_prob_n, value_n, key1) =
            actor_act L train_state hstate0 obs_batch last_done key0;
          env_act = unbatchify L action_n;
          (key, key2) = jr_split L key1;
          key_step = split_keys L key (NUM_ENVS cfg) (NUM_DEVICES cfg);
          (obs_new, env_state, rew, dn, info0, env_graph_state) =
            env_step L key_step env_state0 env_act env_graph_state0;
          info_new = info_agent_major L info0;
          done_batch = batchify_done L (fst dn);
          transition =
            \<lparr>global_done = replicate (num_agents env) (concat (snd dn)),
             done_flag = done_batch, action = action_n, value_est = value_n,
             reward = batchify_reward L rew, log_prob = log_prob_n, obs = obs_batch,
             info = info_new\<rparr>
      in ((train_state, env_state, obs_new, done_batch, hstate, env_graph_state, key),
          transition))"

text \<open>
  \<^verbatim>\<open>_run_update\<close>, one update cycle: a rollout of \<^verbatim>\<open>NUM_STEPS\<close> steps, the actor's
  update, the metrics. \<^verbatim>\<open>graph_state\<close> is the variable of the enclosing \<^verbatim>\<open>train\<close> that
  the closure captures; it is an argument here. The tuple returned is
  \<^verbatim>\<open>(train_state, env_state, last_obs, last_done, hstate, graph_state, key)\<close>, where
  \<^verbatim>\<open>train_state\<close>, \<^verbatim>\<open>last_obs\<close>, \<^verbatim>\<open>last_done\<close> and \<^verbatim>\<open>key\<close> are entries 0, 2, 3 and -1 of
  the actor's result and \<^verbatim>\<open>env_state\<close> and \<^verbatim>\<open>hstate\<close> are those of the rollout. The
  logging callback has no result.
\<close>

definition run_update ::
  "('ts, 'es, 'ob, 'hs, 'gs, 'k, 'ks, 'ea, 'rw, 'dd, 'inf, 'm) Loop \<Rightarrow> Config \<Rightarrow> Env \<Rightarrow> 'gs
     \<Rightarrow> ('ts, 'es, 'ob, 'hs, 'gs, 'k) runner_state \<times> nat \<Rightarrow> unit
     \<Rightarrow> (('ts, 'es, 'ob, 'hs, 'gs, 'k) runner_state \<times> nat) \<times> 'm" where
  "run_update L cfg env graph_state update_runner_state unused =
     (let (runner_state0, update_steps0) = update_runner_state;
          (runner_state, transitions) =
            scan (run_episode_step L cfg env) runner_state0 (replicate (NUM_STEPS cfg) ());
          trajectory_batch = stack transitions;
          (train_state0, env_state, obs_last, done_batch, hstate, env_graph_state, key0) =
            runner_state;
          update_state0 = (train_state0, env_state, obs_last, done_batch, hstate, key0);
          update_state = actor_update L update_state0 trajectory_batch;
          (train_state, es1, last_obs, last_done, hs1, key) = update_state;
          metric = metric_of L (info trajectory_batch) update_steps0;
          update_steps = update_steps0 + 1
      in (((train_state, env_state, last_obs, last_done, hstate, graph_state, key),
           update_steps), metric))"

text \<open>
  \<^verbatim>\<open>train\<close>, with the configuration as \<^verbatim>\<open>run_train\<close> has prepared it. It resets the
  environments once, builds the first runner state around the \<^verbatim>\<open>graph_state\<close> of that
  reset, and scans \<^verbatim>\<open>_run_update\<close> over \<^verbatim>\<open>NUM_UPDATES\<close> cycles. \<open>train_init\<close> is the
  part before the scan: the first runner state and the captured \<^verbatim>\<open>graph_state\<close>;
  \<open>train_cycles\<close> is the scan, for any number of cycles.
\<close>

definition train_init ::
  "('ts, 'es, 'ob, 'hs, 'gs, 'k, 'ks, 'ea, 'rw, 'dd, 'inf, 'm) Loop \<Rightarrow> Config \<Rightarrow> Env
     \<Rightarrow> ('ts, 'es, 'ob, 'hs, 'gs, 'k) runner_state \<times> 'gs" where
  "train_init L cfg env =
     (let key = PRNGKey L (SEED cfg);
          (train_state, hstate) = actor_initialise L key;
          reset_key = split_keys L key (NUM_ENVS cfg) (NUM_DEVICES cfg);
          (obs0, env_state, graph_state) = env_reset L reset_key;
          runner_state =
            (train_state, env_state, obs0,
             replicate (num_agents env) (replicate (NUM_ENVS cfg) False), hstate, graph_state,
             key)
      in (runner_state, graph_state))"

definition train_cycles ::
  "('ts, 'es, 'ob, 'hs, 'gs, 'k, 'ks, 'ea, 'rw, 'dd, 'inf, 'm) Loop \<Rightarrow> Config \<Rightarrow> Env \<Rightarrow> nat
     \<Rightarrow> (('ts, 'es, 'ob, 'hs, 'gs, 'k) runner_state \<times> nat) \<times> 'm list" where
  "train_cycles L cfg env n =
     (let (runner_state, graph_state) = train_init L cfg env
      in scan (run_update L cfg env graph_state) (runner_state, 0) (replicate n ()))"

definition train ::
  "('ts, 'es, 'ob, 'hs, 'gs, 'k, 'ks, 'ea, 'rw, 'dd, 'inf, 'm) Loop \<Rightarrow> Config \<Rightarrow> Env
     \<Rightarrow> (('ts, 'es, 'ob, 'hs, 'gs, 'k) runner_state \<times> nat) \<times> 'm list" where
  "train L cfg env = train_cycles L cfg env (NUM_UPDATES cfg)"

text \<open>The graph-state entry of a runner state.\<close>

definition graph_of :: "('ts, 'es, 'ob, 'hs, 'gs, 'k) runner_state \<Rightarrow> 'gs" where
  "graph_of rs = (case rs of (train_state, env_state, last_obs, last_done, hstate, g, key) \<Rightarrow> g)"

text \<open>
  A loop to run: the graph state counts the environment steps taken since the reset (the
  reset gives \<open>100\<close>), the environment state counts them too, and every flag a step
  returns says that agent \<open>0\<close> is done while the episode is not.
\<close>

definition loop0 ::
  "(nat, nat, unit, unit, nat, nat, unit, unit, unit, unit, unit, nat) Loop" where
  "loop0 =
     \<lparr>PRNGKey = (\<lambda>seed. nat seed), jr_split = (\<lambda>k. (2 * k, 2 * k + 1)),
      split_keys = (\<lambda>k n d. ()), actor_initialise = (\<lambda>k. (0, ())),
      actor_act = (\<lambda>ts hs ob dn k. (hs, [[0]], [[0]], [[0]], k)),
      actor_update = (\<lambda>(ts, es, ob, dn, hs, k) traj. (Suc ts, es, ob, dn, hs, k)),
      env_reset = (\<lambda>ks. ((), 0, 100)),
      env_step = (\<lambda>ks es ea gs. ((), Suc es, (), ((), [[False]]), (), Suc gs)),
      batchify_obs = (\<lambda>ob. [[[0]]]), batchify_done = (\<lambda>dd. [[True]]),
      batchify_reward = (\<lambda>rw. [[1]]), unbatchify = (\<lambda>a. ()),
      info_agent_major = (\<lambda>i. i), metric_of = (\<lambda>infos steps. steps)\<rparr>"

definition env1 :: Env where
  "env1 = \<lparr>num_agents = 1, reward_type = [Some ''PB'']\<rparr>"


chapter \<open>Properties\<close>

section \<open>The learning-rate schedule\<close>

lemma linear_schedule_mono:
  assumes "0 \<le> LR cfg" and "c1 \<le> c2"
  shows "linear_schedule cfg c2 \<le> linear_schedule cfg c1"
proof -
  let ?d = "int (NUM_MINIBATCHES cfg * UPDATE_EPOCHS cfg)"
  have "c1 div ?d \<le> c2 div ?d"
  proof (cases "?d = 0")
    case True
    then show ?thesis by (simp only: div_by_0)
  next
    case False
    then have "0 < ?d" by linarith
    with assms(2) show ?thesis by (rule zdiv_mono1)
  qed
  then have "real_of_int (c1 div ?d) / real (NUM_UPDATES cfg)
             \<le> real_of_int (c2 div ?d) / real (NUM_UPDATES cfg)"
    by (simp add: divide_right_mono)
  then show ?thesis
    using assms(1) by (simp add: linear_schedule_def mult_left_mono)
qed

lemma linear_schedule_end:
  assumes "0 < NUM_MINIBATCHES cfg" and "0 < UPDATE_EPOCHS cfg" and "0 < NUM_UPDATES cfg"
  shows "linear_schedule cfg
           (int (NUM_MINIBATCHES cfg * UPDATE_EPOCHS cfg * NUM_UPDATES cfg)) = 0"
proof -
  have "int (NUM_MINIBATCHES cfg * UPDATE_EPOCHS cfg * NUM_UPDATES cfg)
          div int (NUM_MINIBATCHES cfg * UPDATE_EPOCHS cfg) = int (NUM_UPDATES cfg)"
    using assms(1,2) by (simp del: of_nat_mult add: zdiv_int [symmetric])
  then show ?thesis
    using assms(3) by (simp add: linear_schedule_def)
qed

text \<open>
  C7. With \<^verbatim>\<open>ANNEAL_LR\<close> enabled, a non-negative base rate and positive
  \<^verbatim>\<open>NUM_MINIBATCHES\<close>, \<^verbatim>\<open>UPDATE_EPOCHS\<close> and \<^verbatim>\<open>NUM_UPDATES\<close>, the learning rate is
  \<open>LR * (1 - (count // (NUM_MINIBATCHES * UPDATE_EPOCHS)) / NUM_UPDATES)\<close>, it never
  increases as the optimizer-step count grows, and it is exactly zero at
  \<open>count = NUM_MINIBATCHES * UPDATE_EPOCHS * NUM_UPDATES\<close>.
\<close>

theorem linear_schedule_anneals_to_zero:
  assumes "ANNEAL_LR cfg" and "0 \<le> LR cfg"
    and "0 < NUM_MINIBATCHES cfg" and "0 < UPDATE_EPOCHS cfg" and "0 < NUM_UPDATES cfg"
  shows "learning_rate cfg count =
           LR cfg * (1 - real_of_int (count div int (NUM_MINIBATCHES cfg * UPDATE_EPOCHS cfg))
                           / real (NUM_UPDATES cfg))
         \<and> (\<forall>c1 c2. c1 \<le> c2 \<longrightarrow> learning_rate cfg c2 \<le> learning_rate cfg c1)
         \<and> learning_rate cfg
             (int (NUM_MINIBATCHES cfg * UPDATE_EPOCHS cfg * NUM_UPDATES cfg)) = 0"
  using assms linear_schedule_mono [of cfg] linear_schedule_end [of cfg]
  by (simp add: learning_rate_def linear_schedule_def Let_def)

theorem linear_schedule_anneals_to_zero_witness:
  "learning_rate cfg0 7 = 1/1000 * (1 - 1/5) \<and> learning_rate cfg0 20 = 0
   \<and> learning_rate cfg0 8 \<le> learning_rate cfg0 7"
  using linear_schedule_anneals_to_zero [of cfg0 7]
  by (simp add: cfg0_def)

section \<open>Generalized advantage estimation\<close>

lemma scan_reverse_Cons_snd:
  "snd (scan_reverse f c (x # xs)) =
     snd (f (fst (scan_reverse f c xs)) x) # snd (scan_reverse f c xs)"
  by (simp add: case_prod_beta)

lemma scan_reverse_Cons_fst:
  "fst (scan_reverse f c (x # xs)) = fst (f (fst (scan_reverse f c xs)) x)"
  by (simp add: case_prod_beta)

declare scan_reverse.simps(2) [simp del]

lemma scan_reverse_length: "length (snd (scan_reverse f c xs)) = length xs"
  by (induction xs) (simp_all add: scan_reverse_Cons_snd)

lemma scan_reverse_nth:
  "t < length xs \<Longrightarrow>
     snd (scan_reverse f c xs) ! t = snd (f (fst (scan_reverse f c (drop (Suc t) xs))) (xs ! t))"
proof (induction xs arbitrary: t)
  case Nil
  then show ?case by simp
next
  case (Cons x xs)
  show ?case
  proof (cases t)
    case 0
    then show ?thesis by (simp add: scan_reverse_Cons_snd)
  next
    case (Suc k)
    with Cons show ?thesis by (simp add: scan_reverse_Cons_snd)
  qed
qed

lemma get_advantages_fst:
  "fst (get_advantages cfg c x) = (snd (get_advantages cfg c x), value_est x)"
  by (simp add: get_advantages_def Let_def case_prod_beta)

lemma scan_reverse_gae_carry:
  "fst (scan_reverse (get_advantages cfg) c xs) =
     (case xs of [] \<Rightarrow> c
      | x # _ \<Rightarrow> (hd (snd (scan_reverse (get_advantages cfg) c xs)), value_est x))"
  by (cases xs) (simp_all add: scan_reverse_Cons_snd scan_reverse_Cons_fst get_advantages_fst)

lemma gae_carry_drop:
  "fst (scan_reverse (get_advantages cfg) c (drop (Suc t) xs)) =
     (if Suc t < length xs
      then (snd (scan_reverse (get_advantages cfg) c xs) ! Suc t, value_est (xs ! Suc t))
      else c)"
proof (cases "Suc t < length xs")
  case True
  then obtain y ys where d: "drop (Suc t) xs = y # ys"
    by (metis Cons_nth_drop_Suc)
  have y: "y = xs ! Suc t" using d True
    by (metis Cons_nth_drop_Suc list.inject)
  have "snd (scan_reverse (get_advantages cfg) c xs) ! Suc t
        = snd (get_advantages cfg (fst (scan_reverse (get_advantages cfg) c (drop (Suc (Suc t)) xs))) (xs ! Suc t))"
    using True by (rule scan_reverse_nth)
  moreover have "ys = drop (Suc (Suc t)) xs"
    using d by (metis drop_Suc tl_drop list.sel(3))
  ultimately show ?thesis
    using True d y
    by (simp add: scan_reverse_Cons_fst get_advantages_fst)
next
  case False
  then show ?thesis by simp
qed

lemma has_shape_nth: "has_shape n m x \<Longrightarrow> t < n \<Longrightarrow> length (x ! t) = m"
  by (simp add: has_shape_def list_all_length)

lemma has_shape_length: "has_shape n m x \<Longrightarrow> length x = n"
  by (simp add: has_shape_def)

lemma unstack_length: "length (unstack tb) = length (reward tb)"
  by (simp add: unstack_def)

lemma unstack_nth: "t < length (reward tb) \<Longrightarrow> unstack tb ! t = slice_at t tb"
  by (simp add: unstack_def)

lemma get_advantages_length:
  assumes "length g = E" "length nv = E" "length (global_done x) = E"
    "length (value_est x) = E" "length (reward x) = E"
  shows "length (snd (get_advantages cfg (g, nv) x)) = E"
  using assms by (simp add: get_advantages_def Let_def)

lemma get_advantages_nth:
  assumes "length g = E" "length nv = E" "length (global_done x) = E"
    "length (value_est x) = E" "length (reward x) = E" "e < E"
  shows "snd (get_advantages cfg (g, nv) x) ! e =
           (reward x ! e + GAMMA cfg * nv ! e * one_minus (global_done x ! e) - value_est x ! e)
           + GAMMA cfg * GAE_LAMBDA cfg * one_minus (global_done x ! e) * g ! e"
  using assms by (simp add: get_advantages_def Let_def)

lemma gae_rows_length:
  assumes "list_all (step_shape E) xs" "length g = E" "length nv = E"
  shows "list_all (\<lambda>row. length row = E) (snd (scan_reverse (get_advantages cfg) (g, nv) xs))
         \<and> length (fst (fst (scan_reverse (get_advantages cfg) (g, nv) xs))) = E
         \<and> length (snd (fst (scan_reverse (get_advantages cfg) (g, nv) xs))) = E"
  using assms
proof (induction xs)
  case Nil
  then show ?case by simp
next
  case (Cons x xs)
  then have ih: "list_all (\<lambda>row. length row = E) (snd (scan_reverse (get_advantages cfg) (g, nv) xs))"
    "length (fst (fst (scan_reverse (get_advantages cfg) (g, nv) xs))) = E"
    "length (snd (fst (scan_reverse (get_advantages cfg) (g, nv) xs))) = E"
    by simp_all
  obtain g1 nv1 where c: "fst (scan_reverse (get_advantages cfg) (g, nv) xs) = (g1, nv1)"
    by (cases "fst (scan_reverse (get_advantages cfg) (g, nv) xs)")
  from Cons.prems have x: "step_shape E x" by simp
  have "length (snd (get_advantages cfg (g1, nv1) x)) = E"
    using ih c x by (intro get_advantages_length) (simp_all add: step_shape_def)
  then show ?case
    using ih c x
    by (simp add: scan_reverse_Cons_snd scan_reverse_Cons_fst get_advantages_fst step_shape_def)
qed

lemma unstack_step_shape:
  assumes "traj_shape T E tb"
  shows "list_all (step_shape E) (unstack tb)"
  using assms
  by (auto simp: unstack_def list_all_iff step_shape_def slice_at_def traj_shape_def has_shape_def)

lemma zeros_like_nth: "e < length x \<Longrightarrow> zeros_like x ! e = 0"
  by (simp add: zeros_like_def)

lemma ew2_nth:
  "t < length x \<Longrightarrow> t < length y \<Longrightarrow> e < length (x ! t) \<Longrightarrow> e < length (y ! t)
   \<Longrightarrow> ew2 f x y ! t ! e = f (x ! t ! e) (y ! t ! e)"
  by (simp add: ew2_def)

lemma ew2_length: "length (ew2 f x y) = min (length x) (length y)"
  by (simp add: ew2_def)

lemma ew2_row_length:
  "t < length x \<Longrightarrow> t < length y \<Longrightarrow> length (ew2 f x y ! t) = min (length (x ! t)) (length (y ! t))"
  by (simp add: ew2_def)

text \<open>
  C1. For a rollout of \<open>T\<close> steps over \<open>E\<close> environments and a bootstrap value per
  environment, the advantage at step \<open>t\<close> is
  \<open>delta + gamma * lambda * (1 - done) * gae_prev\<close> with
  \<open>delta = reward + gamma * next_value * (1 - done) - value\<close>, where \<open>gae_prev\<close> and
  \<open>next_value\<close> are the advantage and the value of step \<open>t + 1\<close>, or \<open>0\<close> and the
  bootstrap value at the last step; the target is the advantage plus the value. The
  flag read is \<^verbatim>\<open>global_done\<close>.
\<close>

theorem gae_reverse_recurrence:
  assumes "traj_shape T E tb" and "length last_val = E" and "t < T" and "e < E"
  shows "let adv = fst (calculate_gae cfg tb last_val);
             tgt = snd (calculate_gae cfg tb last_val);
             not_done = 1 - of_bool (global_done tb ! t ! e);
             next_value = (if Suc t < T then value_est tb ! Suc t ! e else last_val ! e);
             gae_prev = (if Suc t < T then adv ! Suc t ! e else 0);
             delta = reward tb ! t ! e + GAMMA cfg * next_value * not_done - value_est tb ! t ! e
         in length adv = T \<and> length tgt = T \<and> length (adv ! t) = E \<and> length (tgt ! t) = E
            \<and> adv ! t ! e = delta + GAMMA cfg * GAE_LAMBDA cfg * not_done * gae_prev
            \<and> tgt ! t ! e = adv ! t ! e + value_est tb ! t ! e"
proof -
  let ?xs = "unstack tb"
  let ?c = "(zeros_like last_val, last_val)"
  let ?adv = "snd (scan_reverse (get_advantages cfg) ?c ?xs)"
  have T: "length (reward tb) = T" "length (value_est tb) = T"
    using assms(1) by (simp_all add: traj_shape_def has_shape_def)
  have len_xs: "length ?xs = T" by (simp add: unstack_length T)
  have adv_eq: "fst (calculate_gae cfg tb last_val) = ?adv"
    by (simp add: calculate_gae_def case_prod_beta)
  have tgt_eq: "snd (calculate_gae cfg tb last_val) = ew2 (+) ?adv (value_est tb)"
    by (simp add: calculate_gae_def case_prod_beta)
  have len_adv: "length ?adv = T" by (simp add: scan_reverse_length len_xs)
  have shapes: "list_all (step_shape E) ?xs"
    using assms(1) by (rule unstack_step_shape)
  have rows: "list_all (\<lambda>row. length row = E) ?adv"
    using gae_rows_length [OF shapes, of "zeros_like last_val" last_val cfg] assms(2)
    by (simp add: zeros_like_def)
  have row: "length (?adv ! k) = E" if "k < T" for k
    using rows that len_adv by (simp add: list_all_length)
  have vrow: "length (value_est tb ! k) = E" if "k < T" for k
    using assms(1) that by (simp add: traj_shape_def has_shape_def list_all_length)
  have xt: "?xs ! k = slice_at k tb" if "k < T" for k
    using that by (simp add: unstack_nth T)
  have sh: "step_shape E (slice_at k tb)" if "k < T" for k
    using shapes that len_xs xt by (metis list_all_length)
  obtain g nv where carry: "fst (scan_reverse (get_advantages cfg) ?c (drop (Suc t) ?xs)) = (g, nv)"
    by (cases "fst (scan_reverse (get_advantages cfg) ?c (drop (Suc t) ?xs))")
  have carry_val: "(g, nv) = (if Suc t < T then (?adv ! Suc t, value_est tb ! Suc t) else ?c)"
    using gae_carry_drop [of cfg ?c t ?xs] carry len_xs xt [of "Suc t"]
    by (simp add: slice_at_def)
  have g_len: "length g = E" and nv_len: "length nv = E"
    using carry_val row [of "Suc t"] vrow [of "Suc t"] assms(2)
    by (auto simp: zeros_like_def split: if_splits)
  have "?adv ! t = snd (get_advantages cfg (g, nv) (slice_at t tb))"
    using scan_reverse_nth [of t ?xs "get_advantages cfg" ?c] assms(3) len_xs carry xt [of t]
    by simp
  then have "?adv ! t ! e =
      (reward (slice_at t tb) ! e + GAMMA cfg * nv ! e * one_minus (global_done (slice_at t tb) ! e)
         - value_est (slice_at t tb) ! e)
      + GAMMA cfg * GAE_LAMBDA cfg * one_minus (global_done (slice_at t tb) ! e) * g ! e"
    using get_advantages_nth [of g E nv "slice_at t tb" e cfg] g_len nv_len sh [OF assms(3)] assms(4)
    by (simp add: step_shape_def)
  moreover have "g ! e = (if Suc t < T then ?adv ! Suc t ! e else 0)"
    and "nv ! e = (if Suc t < T then value_est tb ! Suc t ! e else last_val ! e)"
    using carry_val assms(2,4) by (auto simp: zeros_like_nth split: if_splits)
  ultimately have rec: "?adv ! t ! e =
      (reward tb ! t ! e
         + GAMMA cfg * (if Suc t < T then value_est tb ! Suc t ! e else last_val ! e)
             * (1 - of_bool (global_done tb ! t ! e))
         - value_est tb ! t ! e)
      + GAMMA cfg * GAE_LAMBDA cfg * (1 - of_bool (global_done tb ! t ! e))
          * (if Suc t < T then ?adv ! Suc t ! e else 0)"
    by (simp add: slice_at_def one_minus_def)
  have tgt: "ew2 (+) ?adv (value_est tb) ! t ! e = ?adv ! t ! e + value_est tb ! t ! e"
    using assms(3,4) len_adv T row [OF assms(3)] vrow [OF assms(3)] by (simp add: ew2_nth)
  have tgt_len: "length (ew2 (+) ?adv (value_est tb)) = T"
    "length (ew2 (+) ?adv (value_est tb) ! t) = E"
    using assms(3) len_adv T row [OF assms(3)] vrow [OF assms(3)]
    by (simp_all add: ew2_length ew2_row_length)
  show ?thesis
    unfolding Let_def adv_eq tgt_eq
    using rec tgt tgt_len len_adv row [OF assms(3)] by simp
qed

text \<open>
  The scenario of the specification: one environment, four steps, rewards \<open>1\<close>, the
  episode ending at the last step, \<open>gamma = 0.99\<close>, \<open>lambda = 0.95\<close>.
\<close>

theorem gae_reverse_recurrence_witness:
  "traj_shape 4 1 traj0 \<and> length [3::real] = 1 \<and> (2::nat) < 4 \<and> (0::nat) < 1
   \<and> fst (calculate_gae cfg0 traj0 [3]) ! 2 ! 0
       = (1 + 99/100 * (1/4) * (1 - 0) - 1/2) + 99/100 * (95/100) * (1 - 0) * (3/4)
   \<and> fst (calculate_gae cfg0 traj0 [3])
       = [[102513565303 / 32000000000], [41782863 / 16000000], [11623 / 8000], [3 / 4]]
   \<and> snd (calculate_gae cfg0 traj0 [3])
       = [[118513565303 / 32000000000], [45782863 / 16000000], [15623 / 8000], [1]]"
proof -
  have sh: "traj_shape 4 1 traj0"
    by (simp add: traj_shape_def has_shape_def traj0_def)
  have ev: "calculate_gae cfg0 traj0 [3] =
    ([[102513565303 / 32000000000], [41782863 / 16000000], [11623 / 8000], [3 / 4]],
     [[118513565303 / 32000000000], [45782863 / 16000000], [15623 / 8000], [1]])"
    by (simp add: calculate_gae_def unstack_def traj0_def upt_rec slice_at_def scan_reverse.simps
        get_advantages_def cfg0_def zeros_like_def one_minus_def ew2_def Let_def)
  have "fst (calculate_gae cfg0 traj0 [3]) ! 2 ! 0
       = (1 + 99/100 * (1/4) * (1 - 0) - 1/2) + 99/100 * (95/100) * (1 - 0) * (fst (calculate_gae cfg0 traj0 [3]) ! 3 ! 0)"
    using gae_reverse_recurrence [OF sh, of "[3]" 2 0 cfg0]
    by (simp add: Let_def traj0_def cfg0_def)
  then show ?thesis using sh ev by simp
qed

section \<open>The masked means of the loss\<close>




















section \<open>The optimizer: what \<^verbatim>\<open>update\<close> leaves unchanged\<close>

lemma concat_chunks:
  "concat (map (\<lambda>i. take k (drop (i * k) xs)) [0..<n]) = take (n * k) xs"
proof (induction n)
  case 0
  then show ?case by simp
next
  case (Suc n)
  have "take (n * k) xs @ take k (drop (n * k) xs) = take (n * k + k) xs"
    by (simp add: take_add)
  with Suc show ?case by (simp add: add.commute)
qed

lemma reshape_hstate_Inr:
  assumes "reshape_hstate n h = Inr r"
  shows "\<exists>rows. r = [rows] \<and> concat rows = concat h"
proof -
  from assms have n: "n \<noteq> 0" and m: "length (concat h) mod n = 0"
    by (auto simp: reshape_hstate_def Let_def split: if_splits)
  let ?k = "length (concat h) div n"
  from m have "n * ?k = length (concat h)" by auto
  then have "concat (map (\<lambda>i. take ?k (drop (i * ?k) (concat h))) [0..<n]) = concat h"
    by (simp add: concat_chunks)
  with assms n m show ?thesis
    by (auto simp: reshape_hstate_def Let_def)
qed

lemma same_rows:
  "concat xs = concat ys \<Longrightarrow> map length xs = map length ys \<Longrightarrow> xs = ys"
proof (induction xs arbitrary: ys)
  case Nil
  then show ?case by simp
next
  case (Cons x xs)
  then obtain y ys' where ys: "ys = y # ys'" by (cases ys) auto
  with Cons.prems have "length x = length y" and "x @ concat xs = y @ concat ys'" by simp_all
  then have "x = y" and "concat xs = concat ys'" by simp_all
  with Cons ys show ?case by simp
qed

lemma bind_err_Inr: "bind_err m f = Inr y \<Longrightarrow> \<exists>x. m = Inr x \<and> f x = Inr y"
  by (cases m) (simp_all add: bind_err_def)

lemma update_epoch_hstate:
  assumes "update_epoch D cfg (ts, hs, tb, adv, tgt, k) u = Inr ((ts', hs', tb', adv', tgt', k'), l)"
  shows "hs' = hs"
proof -
  obtain ka kb where sp: "split D k = (ka, kb)" by (cases "split D k")
  from assms sp obtain r where r: "reshape_hstate (NUM_ENVS cfg) hs = Inr r"
    by (auto simp: update_epoch_def Let_def dest!: bind_err_Inr)
  then obtain rows where rows: "r = [rows]" "concat rows = concat hs"
    using reshape_hstate_Inr by blast
  from assms sp r rows have "squeeze_hstate [rows] = Inr hs'" and "map length hs' = map length hs"
    by (auto simp: update_epoch_def Let_def bind_err_def split: sum.splits if_splits prod.splits)
  then have "hs' = rows"
    by (auto simp: squeeze_hstate_def split: if_splits)
  with rows \<open>map length hs' = map length hs\<close> show ?thesis
    using same_rows by blast
qed

lemma scan_epochs_hstate:
  assumes "scan_err (update_epoch D cfg) (ts, hs, rest) us = Inr ((ts', hs', rest'), ls)"
  shows "hs' = hs"
  using assms
proof (induction us arbitrary: ts hs rest ls)
  case Nil
  then show ?case by simp
next
  case (Cons u us)
  from Cons.prems obtain c1 y where
    step: "update_epoch D cfg (ts, hs, rest) u = Inr (c1, y)"
    by (auto dest!: bind_err_Inr)
  obtain ts1 hs1 rest1 where c1: "c1 = (ts1, hs1, rest1)" by (cases c1) auto
  obtain tb adv tgt k where rest: "rest = (tb, adv, tgt, k)" by (cases rest) auto
  obtain tb1 adv1 tgt1 k1 where rest1: "rest1 = (tb1, adv1, tgt1, k1)" by (cases rest1) auto
  have "hs1 = hs"
    using update_epoch_hstate [of D cfg ts hs tb adv tgt k u ts1 hs1 tb1 adv1 tgt1 k1 y]
      step c1 rest rest1 by simp
  moreover from Cons.prems step c1 obtain ls' where
    "scan_err (update_epoch D cfg) (ts1, hs1, rest1) us = Inr ((ts', hs', rest'), ls')"
    by (auto simp: bind_err_def split: sum.splits prod.splits)
  then have "hs' = hs1" by (rule Cons.IH)
  ultimately show ?case by simp
qed

lemma update_frame_if_returns:
  assumes "update D cfg (train_state, env_state, last_obs, last_done, hstate, key) traj_batch
             = Inr (train_state', env_state', last_obs', last_done', hstate', key')"
  shows "env_state' = env_state \<and> last_obs' = last_obs \<and> last_done' = last_done
         \<and> hstate' = hstate"
proof -
  obtain a b c where n: "network_apply D (params D train_state) hstate ([last_obs], [last_done]) = (a, b, c)"
    by (cases "network_apply D (params D train_state) hstate ([last_obs], [last_done])")
  from assms n obtain lv where lv: "squeeze_last_val c = Inr lv"
    by (auto simp: update_def Let_def dest!: bind_err_Inr)
  obtain adv tgt where g: "calculate_gae cfg traj_batch lv = (adv, tgt)"
    by (cases "calculate_gae cfg traj_batch lv")
  from assms n lv g obtain us ls where
    sc: "scan_err (update_epoch D cfg) (train_state, hstate, traj_batch, adv, tgt, key)
           (replicate (UPDATE_EPOCHS cfg) ()) = Inr (us, ls)"
    and res: "(case us of (train_state, hstate, traj_batch, advantages, targets, key) \<Rightarrow>
                 Inr (train_state, env_state, last_obs, last_done, hstate, key))
              = (Inr (train_state', env_state', last_obs', last_done', hstate', key')
                  :: error + _)"
    by (auto simp: update_def Let_def bind_err_def split: sum.splits)
  obtain ts1 hs1 rest1 where us: "us = (ts1, hs1, rest1)" by (cases us) auto
  have "hs1 = hstate"
    using scan_epochs_hstate [of D cfg train_state hstate "(traj_batch, adv, tgt, key)"
        "replicate (UPDATE_EPOCHS cfg) ()" ts1 hs1 rest1 ls] sc us by simp
  with res us show ?thesis by (auto split: prod.splits)
qed

lemma loss_fn_total:
  "\<exists>l. loss_fn D cfg ps [h0] tb g t = Inr l"
  by (simp add: loss_fn_def Let_def split: prod.splits)

lemma update_minbatch_Inr:
  "\<exists>l. update_minbatch D cfg ts ([h0], tb, a, t)
        = Inr (apply_gradients D ts
                 (grad D (\<lambda>ps. loss_fn D cfg ps [h0] tb a t) (params D ts)), l)"
proof -
  obtain l where "loss_fn D cfg (params D ts) [h0] tb a t = Inr l"
    using loss_fn_total [of D cfg "params D ts" h0 tb a t] by auto
  then show ?thesis
    by (cases l) (simp add: update_minbatch_def bind_err_def)
qed


lemma update_minbatch_eval:
  "update_minbatch D cfg ts ([h0], tb, a, t)
     = Inr (apply_gradients D ts (grad D (\<lambda>ps. loss_fn D cfg ps [h0] tb a t) (params D ts)),
            fst (projr (loss_fn D cfg (params D ts) [h0] tb a t)))"
proof -
  obtain l where "loss_fn D cfg (params D ts) [h0] tb a t = Inr l"
    using loss_fn_total [of D cfg "params D ts" h0 tb a t] by auto
  then show ?thesis
    by (cases l) (simp add: update_minbatch_def bind_err_def)
qed

lemma rep2: "replicate 2 x = [x, x]" by (simp add: numeral_2_eq_2)
lemma upt2: "[0..<2] = [0, 1]" by (simp add: upt_rec)
lemma upt3: "[0..<3] = [0, 1, 2]" by (simp add: upt_rec)

lemma length_concat_shape:
  assumes "has_shape E H hs"
  shows "length (concat hs) = E * H"
proof -
  have len: "length hs = E" and rows: "\<And>r. r \<in> set hs \<Longrightarrow> length r = H"
    using assms by (auto simp: has_shape_def list_all_iff)
  show ?thesis
    using len rows by (simp add: length_concat sum_list_triv cong: map_cong)
qed

lemma reshape_hstate_same:
  assumes "has_shape E H hs" and "0 < E"
  shows "reshape_hstate E hs = Inr [hs]"
proof -
  let ?flat = "concat hs"
  let ?rows = "map (\<lambda>i. take H (drop (i * H) ?flat)) [0..<E]"
  have flat: "length ?flat = E * H" using assms(1) by (rule length_concat_shape)
  have k: "length ?flat div E = H" and m: "length ?flat mod E = 0"
    using flat assms(2) by simp_all
  have "concat ?rows = take (E * H) ?flat" by (rule concat_chunks)
  then have c: "concat ?rows = concat hs" using flat by simp
  have "length (take H (drop (i * H) ?flat)) = H" if "i < E" for i
  proof -
    from that have "Suc i \<le> E" by simp
    then have "Suc i * H \<le> E * H" by (rule mult_le_mono1)
    then show ?thesis using flat by simp
  qed
  then have "map length ?rows = replicate E H"
    by (simp add: map_replicate_const [symmetric] cong: map_cong)
       (metis (no_types, lifting) atLeastLessThan_iff diff_zero length_upt map_eq_conv map_replicate_const set_upt)
  moreover have "map length hs = replicate E H"
    using assms(1) by (auto simp: has_shape_def list_all_iff map_replicate_const [symmetric] cong: map_cong)
  ultimately have "?rows = hs"
    using c same_rows by metis
  then show ?thesis
    using assms(2) k m by (simp add: reshape_hstate_def Let_def)
qed

lemma scan_err_returns:
  assumes "\<And>c x. x \<in> set xs \<Longrightarrow> \<exists>r. f c x = Inr r"
  shows "\<exists>r. scan_err f c xs = Inr r"
  using assms
proof (induction xs arbitrary: c)
  case Nil
  then show ?case by simp
next
  case (Cons x xs)
  obtain c1 y where 1: "f c x = Inr (c1, y)"
    using Cons.prems [of x c] by auto
  obtain r where "scan_err f c1 xs = Inr r"
    using Cons.IH [of c1] Cons.prems by auto
  with 1 show ?case by (cases r) (simp add: bind_err_def)
qed

lemma to_minibatches_singleton:
  "m < n \<Longrightarrow> \<exists>h0. to_minibatches n [row] ! m = [h0]"
  by (simp add: to_minibatches_def Let_def)

lemma minibatches_returns:
  "\<exists>r. scan_err (update_minbatch D cfg) ts
         (minibatches_of n (shuffle_batch D perm ([hs], tb, adv, tgt))) = Inr r"
proof (rule scan_err_returns)
  fix c x
  assume "x \<in> set (minibatches_of n (shuffle_batch D perm ([hs], tb, adv, tgt)))"
  then obtain m tb1 a1 t1 where m: "m < n"
    and x: "x = (to_minibatches n (take_axis1 (fill_hidden D) perm [hs]) ! m, tb1, a1, t1)"
    by (auto simp: minibatches_of_def shuffle_batch_def Let_def)
  have "\<exists>row. take_axis1 (fill_hidden D) perm [hs] = [row]"
    by (simp add: take_axis1_def)
  then obtain h0 where "to_minibatches n (take_axis1 (fill_hidden D) perm [hs]) ! m = [h0]"
    using to_minibatches_singleton [OF m] by metis
  with x show "\<exists>r. update_minbatch D cfg c x = Inr r"
    by (simp add: update_minbatch_eval)
qed

lemma squeeze2_swapaxes:
  assumes "has_shape T E x" and "T \<noteq> 1" and "1 < E"
  shows "squeeze2 (swapaxes01 x) = Inr (swapaxes01 x)"
proof (cases x)
  case Nil
  then show ?thesis by (simp add: squeeze2_def swapaxes01_def ncols_def)
next
  case (Cons r rs)
  with assms have nc: "ncols x = E" and len: "length x = T"
    by (simp_all add: ncols_def has_shape_def)
  have "length (swapaxes01 x) = E" using nc by (simp add: swapaxes01_def)
  moreover have "ncols (swapaxes01 x) = T"
    using nc len assms(3) by (simp add: swapaxes01_def ncols_def upt_conv_Cons)
  ultimately show ?thesis
    using assms by (simp add: squeeze2_def)
qed

lemma squeeze_hstate_same:
  assumes "has_shape E H hs" and "1 < E" and "H \<noteq> 1"
  shows "squeeze_hstate [hs] = Inr hs"
proof -
  from assms obtain r rs where "hs = r # rs" by (cases hs) (auto simp: has_shape_def)
  with assms have "ncols hs = H" and "length hs = E"
    by (simp_all add: ncols_def has_shape_def)
  with assms show ?thesis by (simp add: squeeze_hstate_def)
qed

lemma update_epoch_returns:
  assumes "has_shape (NUM_ENVS cfg) H hs" and "1 < NUM_ENVS cfg" and "H \<noteq> 1"
    and "has_shape T (NUM_ENVS cfg) adv" and "has_shape T (NUM_ENVS cfg) tgt" and "T \<noteq> 1"
    and "0 < NUM_MINIBATCHES cfg"
    and "\<And>k. length (permutation D k (NUM_ENVS cfg)) mod NUM_MINIBATCHES cfg = 0"
  shows "\<exists>ts' tb' k' l.
           update_epoch D cfg (ts, hs, tb, adv, tgt, k) u = Inr ((ts', hs, tb', adv, tgt, k'), l)"
proof -
  obtain ka kb where sp: "split D k = (ka, kb)" by (cases "split D k")
  have r: "reshape_hstate (NUM_ENVS cfg) hs = Inr [hs]"
    using assms(1,2) by (intro reshape_hstate_same) simp_all
  have a: "squeeze2 (swapaxes01 adv) = Inr (swapaxes01 adv)"
    and t: "squeeze2 (swapaxes01 tgt) = Inr (swapaxes01 tgt)"
    using assms by (simp_all add: squeeze2_swapaxes)
  have s: "squeeze_hstate [hs] = Inr hs"
    using assms(1,2,3) by (rule squeeze_hstate_same)
  obtain ts' ls where mb: "scan_err (update_minbatch D cfg) ts
      (minibatches_of (NUM_MINIBATCHES cfg)
         (shuffle_batch D (permutation D kb (NUM_ENVS cfg))
            ([hs], map_leaves swapaxes01 swapaxes01 swapaxes01 swapaxes01 swapaxes01 tb,
             swapaxes01 adv, swapaxes01 tgt))) = Inr (ts', ls)"
    using minibatches_returns by (metis surj_pair)
  show ?thesis
    using assms(7,8) by (simp add: update_epoch_def sp r a t s mb bind_err_def Let_def)
qed

lemma scan_epochs_returns:
  assumes "has_shape (NUM_ENVS cfg) H hs" and "1 < NUM_ENVS cfg" and "H \<noteq> 1"
    and "has_shape T (NUM_ENVS cfg) adv" and "has_shape T (NUM_ENVS cfg) tgt" and "T \<noteq> 1"
    and "0 < NUM_MINIBATCHES cfg"
    and "\<And>k. length (permutation D k (NUM_ENVS cfg)) mod NUM_MINIBATCHES cfg = 0"
  shows "\<exists>ts' tb' k' ls.
           scan_err (update_epoch D cfg) (ts, hs, tb, adv, tgt, k) us
             = Inr ((ts', hs, tb', adv, tgt, k'), ls)"
proof (induction us arbitrary: ts tb k)
  case Nil
  then show ?case by simp
next
  case (Cons u us)
  obtain ts1 tb1 k1 l where
    1: "update_epoch D cfg (ts, hs, tb, adv, tgt, k) () = Inr ((ts1, hs, tb1, adv, tgt, k1), l)"
    using update_epoch_returns [OF assms, of ts tb k "()"] by blast
  obtain ts2 tb2 k2 ls where
    2: "scan_err (update_epoch D cfg) (ts1, hs, tb1, adv, tgt, k1) us
          = Inr ((ts2, hs, tb2, adv, tgt, k2), ls)"
    using Cons.IH by blast
  show ?case by (simp add: 1 2 bind_err_def)
qed

lemma calculate_gae_shape:
  assumes "traj_shape T E tb" and "length last_val = E"
  shows "has_shape T E (fst (calculate_gae cfg tb last_val))
         \<and> has_shape T E (snd (calculate_gae cfg tb last_val))"
proof -
  let ?adv = "snd (scan_reverse (get_advantages cfg) (zeros_like last_val, last_val) (unstack tb))"
  have T: "length (reward tb) = T" and v: "has_shape T E (value_est tb)"
    using assms(1) by (simp_all add: traj_shape_def has_shape_def)
  have len: "length ?adv = T" by (simp add: scan_reverse_length unstack_length T)
  have rows: "list_all (\<lambda>row. length row = E) ?adv"
    using gae_rows_length [OF unstack_step_shape [OF assms(1)], of "zeros_like last_val" last_val cfg]
      assms(2) by (simp add: zeros_like_def)
  have adv: "has_shape T E ?adv" using len rows by (simp add: has_shape_def)
  have "has_shape T E (ew2 (+) ?adv (value_est tb))"
    using adv v
    by (auto simp: has_shape_def ew2_def list_all_length)
  with adv show ?thesis
    by (simp add: calculate_gae_def case_prod_beta)
qed

lemma update_returns:
  assumes "has_shape (NUM_ENVS cfg) H hstate" and "1 < NUM_ENVS cfg" and "H \<noteq> 1"
    and "traj_shape T (NUM_ENVS cfg) traj_batch" and "T \<noteq> 1"
    and "0 < NUM_MINIBATCHES cfg"
    and "\<And>k. length (permutation D k (NUM_ENVS cfg)) mod NUM_MINIBATCHES cfg = 0"
    and "has_shape 1 (NUM_ENVS cfg)
           (snd (snd (network_apply D (params D train_state) hstate ([last_obs], [last_done]))))"
  shows "\<exists>train_state' key'.
           update D cfg (train_state, env_state, last_obs, last_done, hstate, key) traj_batch
             = Inr (train_state', env_state, last_obs, last_done, hstate, key')"
proof -
  obtain a b c where n: "network_apply D (params D train_state) hstate ([last_obs], [last_done]) = (a, b, c)"
    by (cases "network_apply D (params D train_state) hstate ([last_obs], [last_done])")
  from assms(8) n obtain row where c: "c = [row]" and row: "length row = NUM_ENVS cfg"
    by (cases c) (auto simp: has_shape_def)
  have lv: "squeeze_last_val c = Inr row"
    using c row assms(2) by (simp add: squeeze_last_val_def)
  obtain adv tgt where g: "calculate_gae cfg traj_batch row = (adv, tgt)"
    by (cases "calculate_gae cfg traj_batch row")
  have sh: "has_shape T (NUM_ENVS cfg) adv" "has_shape T (NUM_ENVS cfg) tgt"
    using calculate_gae_shape [OF assms(4) row, of cfg] g by simp_all
  obtain ts' tb' k' ls where
    "scan_err (update_epoch D cfg) (train_state, hstate, traj_batch, adv, tgt, key)
       (replicate (UPDATE_EPOCHS cfg) ()) = Inr ((ts', hstate, tb', adv, tgt, k'), ls)"
    using scan_epochs_returns [OF assms(1,2,3) sh assms(5,6,7)] by blast
  then show ?thesis
    by (simp add: update_def n lv g bind_err_def Let_def)
qed


text \<open>
  C9. Whenever \<^verbatim>\<open>update\<close> returns, the environment state, the last observation and the
  last done flags of the runner state it returns are the ones it was given, and so is the
  hidden state: each epoch reshapes it to \<open>(1, NUM_ENVS, -1)\<close> and squeezes it back. Only
  the train state and the key can differ. And \<^verbatim>\<open>update\<close> does return on inputs of
  the shapes it is written for: more than one environment, a hidden state of
  \<open>[NUM_ENVS, H]\<close> with \<open>H\<close> other than one, a rollout of \<open>[T, NUM_ENVS]\<close> with \<open>T\<close>
  other than one, a permutation whose length \<^verbatim>\<open>NUM_MINIBATCHES\<close> divides, and a critic
  that returns one bootstrap value per environment.
\<close>

theorem update_frame:
  "(update D cfg (train_state, env_state, last_obs, last_done, hstate, key) traj_batch
        = Inr (train_state', env_state', last_obs', last_done', hstate', key')
      \<longrightarrow> env_state' = env_state \<and> last_obs' = last_obs \<and> last_done' = last_done
          \<and> hstate' = hstate)
   \<and> (has_shape (NUM_ENVS cfg) H hstate \<and> 1 < NUM_ENVS cfg \<and> H \<noteq> 1
        \<and> traj_shape T (NUM_ENVS cfg) traj_batch \<and> T \<noteq> 1 \<and> 0 < NUM_MINIBATCHES cfg
        \<and> (\<forall>k. length (permutation D k (NUM_ENVS cfg)) mod NUM_MINIBATCHES cfg = 0)
        \<and> has_shape 1 (NUM_ENVS cfg)
             (snd (snd (network_apply D (params D train_state) hstate ([last_obs], [last_done]))))
      \<longrightarrow> (\<exists>ts k. update D cfg (train_state, env_state, last_obs, last_done, hstate, key)
                    traj_batch
                  = Inr (ts, env_state, last_obs, last_done, hstate, k)))"
proof (rule conjI; rule impI)
  assume "update D cfg (train_state, env_state, last_obs, last_done, hstate, key) traj_batch
        = Inr (train_state', env_state', last_obs', last_done', hstate', key')"
  then show "env_state' = env_state \<and> last_obs' = last_obs \<and> last_done' = last_done
          \<and> hstate' = hstate"
    by (rule update_frame_if_returns)
next
  assume a: "has_shape (NUM_ENVS cfg) H hstate \<and> 1 < NUM_ENVS cfg \<and> H \<noteq> 1
        \<and> traj_shape T (NUM_ENVS cfg) traj_batch \<and> T \<noteq> 1 \<and> 0 < NUM_MINIBATCHES cfg
        \<and> (\<forall>k. length (permutation D k (NUM_ENVS cfg)) mod NUM_MINIBATCHES cfg = 0)
        \<and> has_shape 1 (NUM_ENVS cfg)
             (snd (snd (network_apply D (params D train_state) hstate ([last_obs], [last_done]))))"
  show "\<exists>ts k. update D cfg (train_state, env_state, last_obs, last_done, hstate, key) traj_batch
                  = Inr (ts, env_state, last_obs, last_done, hstate, k)"
    by (rule update_returns [of cfg H hstate T traj_batch D train_state last_obs last_done])
       (use a in simp_all)
qed

theorem update_frame_witness:
  "update deps0 cfg2 (5, (), [[0],[0]], [False, False], [[7,8],[9,10]], 3) traj32
   = Inr (3, (), [[0],[0]], [False, False], [[7,8],[9,10]], 12)"
proof -
  have ev: "update deps0 cfg2 (5, (), [[0],[0]], [False, False], [[7,8],[9,10]], 3) traj32
     = Inr (3, (), [[0],[0]], [False, False], [[7,8],[9,10]], 12)"
    by (simp add: update_def update_epoch_def Let_def cfg2_def cfg0_def deps0_def traj32_def
      squeeze_last_val_def ew1_def ew2_def bind_err_def calculate_gae_def unstack_def slice_at_def
      get_advantages_def zeros_like_def one_minus_def upt2 upt3 reshape_hstate_def swapaxes01_def ncols_def
      squeeze2_def squeeze_hstate_def shuffle_batch_def minibatches_of_def to_minibatches_def
      take_axis1_def map_leaves_def update_minbatch_eval scan_reverse.simps rep2)
  have "has_shape (NUM_ENVS cfg2) 2 [[7,8],[9,10]] \<and> traj_shape 3 (NUM_ENVS cfg2) traj32
      \<and> 0 < NUM_MINIBATCHES cfg2
      \<and> (\<forall>k. length (permutation deps0 k (NUM_ENVS cfg2)) mod NUM_MINIBATCHES cfg2 = 0)"
    by (simp add: has_shape_def traj_shape_def traj32_def cfg2_def cfg0_def deps0_def)
  then show ?thesis
    using ev update_frame [of deps0 cfg2 5 "()" "[[0],[0]]" "[False, False]" "[[7,8],[9,10]]" 3
        traj32 3 "()" "[[0],[0]]" "[False, False]" "[[7,8],[9,10]]" 12 2 3]
    by simp
qed

section \<open>The minibatch shuffle\<close>

text \<open>
  In \<^verbatim>\<open>_update_epoch\<close> the trajectory, the advantages and the targets are swapped to
  \<open>[environment, time]\<close> before \<^verbatim>\<open>jnp.take(x, permutation, axis=1)\<close>, so for them axis 1
  is the time axis: entry \<open>j\<close> of environment \<open>e\<close> in the shuffled leaf is time step
  \<open>permutation[j]\<close> of the same environment \<open>e\<close>.
\<close>

lemma swapaxes01_nth:
  assumes "has_shape T E x" and "t < T" and "e < E"
  shows "swapaxes01 x ! e ! t = x ! t ! e"
proof -
  from assms have "x \<noteq> []" by (auto simp: has_shape_def)
  then obtain r rs where x: "x = r # rs" by (cases x) auto
  with assms have "ncols x = E" by (simp add: ncols_def has_shape_def)
  with assms show ?thesis by (simp add: swapaxes01_def has_shape_def)
qed

lemma shuffled_entry_is_time_step:
  assumes "has_shape T E x" and "e < E" and "j < length perm" and "perm ! j < T"
  shows "take_axis1 fill perm (swapaxes01 x) ! e ! j = x ! (perm ! j) ! e"
proof -
  from assms have "x \<noteq> []" by (auto simp: has_shape_def)
  then obtain r rs where x: "x = r # rs" by (cases x) auto
  with assms have nc: "ncols x = E" by (simp add: ncols_def has_shape_def)
  have len: "length x = T" using assms by (simp add: has_shape_def)
  show ?thesis
    using assms nc len by (simp add: take_axis1_def swapaxes01_def)
qed

text \<open>
  C2. On a rollout of three steps in two environments with the permutation \<open>[1, 0]\<close>, the
  shuffle exchanges the two environments' hidden states, and in every trajectory leaf it
  keeps each environment in place, exchanges time steps \<open>0\<close> and \<open>1\<close> and drops time
  step \<open>2\<close>; the result differs from the permutation of the environment axis, and the
  two minibatches are the two time steps, each with the hidden state of one environment.
\<close>

theorem shuffle_reorders_time_axis:
  "value_est (fst (snd epoch_batch32)) = [[10, 20, 30], [11, 21, 31]]
   \<and> shuffle_batch deps0 [1, 0] epoch_batch32 =
       ([[[9, 10], [7, 8]]],
        \<lparr>global_done = [[False, False], [False, False]],
         done_flag = [[False, False], [False, False]],
         action = [[2, 0], [3, 1]], value_est = [[20, 10], [21, 11]],
         reward = [[1, 1], [1, 1]], log_prob = [[0, 0], [0, 0]],
         obs = [[[0], [0]], [[0], [0]]], info = [[(), ()], [(), ()]]\<rparr>,
        [[20, 10], [21, 11]], [[20, 10], [21, 11]])
   \<and> value_est (fst (snd (shuffle_batch deps0 [1, 0] epoch_batch32)))
       \<noteq> take_axis0 [1, 0] (value_est (fst (snd epoch_batch32)))
   \<and> map (\<lambda>(h, tr, adv, tgt). (h, value_est tr))
         (minibatches_of 2 (shuffle_batch deps0 [1, 0] epoch_batch32))
       = [([[[9, 10]]], [[20], [21]]), ([[[7, 8]]], [[10], [11]])]"
  by (simp add: epoch_batch32_def shuffle_batch_def traj32_def map_leaves_def swapaxes01_def
      ncols_def take_axis1_def take_axis0_def deps0_def minibatches_of_def to_minibatches_def
      upt_rec)

section \<open>The actor-critic network\<close>

text \<open>A run of the network: the hidden state \<open>5\<close> comes back although the flag is set.\<close>

lemma network_example:
  "ActorCriticRNN_call ''relu'' params0 [[5]] ([[[2]]], [[True]])
     = ([[5]], Categorical [[[2, 4]]], [[7]])"
  by (simp add: ActorCriticRNN_call_def Let_def params0_def ew1_def Dense_def Dense1_def relu_def
      upt_rec)


text \<open>
  Against C5 as stated: with every \<^verbatim>\<open>agent_done\<close> flag set, two hidden states that
  the reset makes equal still come back different, each as it went in; no cell applied
  to the reset state could return both.
\<close>

theorem network_keeps_hidden_at_done_counterexample:
  "reset_hidden [True] [[1]] = reset_hidden [True] [[2]]
   \<and> fst (ActorCriticRNN_call ''tanh'' params0 [[1]] ([[[0]]], [[True]]))
       \<noteq> fst (ActorCriticRNN_call ''tanh'' params0 [[2]] ([[[0]]], [[True]]))
   \<and> fst (ActorCriticRNN_call ''tanh'' params0 [[1]] ([[[0]]], [[True]])) = [[1]]"
  by (simp add: ActorCriticRNN_call_def Let_def reset_hidden_def)

text \<open>
  C5, amended. The network of \<^verbatim>\<open>agents/PPO/network.py\<close> has no recurrent cell and no
  reset: it returns the hidden state it was given, for every input, and its policy
  logits and its value depend on the observation and the parameters only, not on the
  hidden state and not on \<^verbatim>\<open>agent_done\<close>.
\<close>

theorem network_returns_input_hidden:
  "fst (ActorCriticRNN_call a ps hidden (obs_in, dones)) = hidden
   \<and> snd (ActorCriticRNN_call a ps hidden (obs_in, dones))
       = snd (ActorCriticRNN_call a ps hidden' (obs_in, dones'))"
  by (simp add: ActorCriticRNN_call_def Let_def)

section \<open>The reward dispatch\<close>








section \<open>The training loop\<close>

lemma scan_snoc:
  "scan f c (xs @ [x]) =
     (let (c1, ys) = scan f c xs; (c2, y) = f c1 x in (c2, ys @ [y]))"
  by (induction xs arbitrary: c) (simp_all add: Let_def split: prod.splits)

lemma scan_replicate_Suc:
  "fst (scan f c (replicate (Suc n) u)) = fst (f (fst (scan f c (replicate n u))) u)"
proof -
  have "replicate (Suc n) u = replicate n u @ [u]"
    by (simp add: replicate_append_same)
  then show ?thesis
    by (simp only: scan_snoc) (simp add: Let_def split: prod.splits)
qed

lemma run_update_graph:
  "graph_of (fst (fst (run_update L cfg env g urs u))) = g"
  by (simp add: run_update_def graph_of_def Let_def split: prod.splits)

text \<open>
  C10. In \<^verbatim>\<open>train\<close>, the runner state carried into every update cycle has, as its
  graph-state entry, the \<^verbatim>\<open>graph_state\<close> of the one initial reset: \<^verbatim>\<open>_run_update\<close>
  returns the captured \<^verbatim>\<open>graph_state\<close>, whatever the rollout made of
  \<^verbatim>\<open>env_graph_state\<close>, and the state one cycle returns is the state the next cycle
  starts from.
\<close>

theorem cycles_start_from_initial_graph_state:
  "graph_of (fst (fst (train_cycles L cfg env k))) = snd (train_init L cfg env)
   \<and> fst (train_cycles L cfg env (Suc k))
       = fst (run_update L cfg env (snd (train_init L cfg env))
                (fst (train_cycles L cfg env k)) ())
   \<and> graph_of (fst (fst (run_update L cfg env g (rs, n) ()))) = g
   \<and> snd (train_init L cfg env)
       = snd (snd (env_reset L
           (split_keys L (PRNGKey L (SEED cfg)) (NUM_ENVS cfg) (NUM_DEVICES cfg))))"
proof -
  obtain rs0 g0 where init: "train_init L cfg env = (rs0, g0)"
    by (cases "train_init L cfg env")
  have g0: "graph_of rs0 = g0"
    using init by (auto simp: train_init_def graph_of_def Let_def split: prod.splits)
  have step: "fst (train_cycles L cfg env (Suc k))
       = fst (run_update L cfg env g0 (fst (train_cycles L cfg env k)) ())"
    using scan_replicate_Suc [of "run_update L cfg env g0" "(rs0, 0)" k "()"]
    by (simp add: train_cycles_def init)
  have "graph_of (fst (fst (train_cycles L cfg env k))) = g0"
  proof (cases k)
    case 0
    then show ?thesis by (simp add: train_cycles_def init g0)
  next
    case (Suc j)
    have "fst (train_cycles L cfg env (Suc j))
       = fst (run_update L cfg env g0 (fst (train_cycles L cfg env j)) ())"
      using scan_replicate_Suc [of "run_update L cfg env g0" "(rs0, 0)" j "()"]
      by (simp add: train_cycles_def init)
    then show ?thesis
      using Suc by (simp add: run_update_graph)
  qed
  moreover have "snd (train_init L cfg env)
       = snd (snd (env_reset L
           (split_keys L (PRNGKey L (SEED cfg)) (NUM_ENVS cfg) (NUM_DEVICES cfg))))"
    by (simp add: train_init_def Let_def split: prod.splits)
  ultimately show ?thesis
    using step init by (simp add: run_update_graph)
qed

lemma rep3: "replicate 3 x = [x, x, x]" by (simp add: numeral_3_eq_3)

text \<open>
  A run: the rollout of three steps advances the graph state from \<open>100\<close> to \<open>103\<close>, and
  the cycle hands \<open>100\<close> to the next one, together with the environment state \<open>3\<close>.
\<close>

lemma loop0_rollout:
  "fst (scan (run_episode_step loop0 cfg0 env1) (0, 0, (), [[False]], (), 100, 42)
          (replicate (NUM_STEPS cfg0) ()))
     = (0, 3, (), [[True]], (), 103, 336)
   \<and> fst (run_update loop0 cfg0 env1 100 ((0, 0, (), [[False]], (), 100, 42), 0) ())
     = ((1, 3, (), [[True]], (), 100, 336), 1)"
  by (simp add: run_update_def run_episode_step_def loop0_def cfg0_def env1_def rep3 Let_def stack_def)


section \<open>Which done flag the advantage estimator reads\<close>







end
